theory Spec2Isabelle
  imports Main
begin

section \<open>Tokens\<close>

text \<open>
  A token as the sources use it: \<^verbatim>\<open>Main.cpp\<close> builds one positionally as
  \<^verbatim>\<open>{TokenType_Symbol, "<module>", filename, 1, 0, 1}\<close>, and the diagnostic macros of
  \<^verbatim>\<open>Utilities.hpp\<close> read \<^verbatim>\<open>source\<close>, \<^verbatim>\<open>lineNumber\<close> and \<^verbatim>\<open>columnStart\<close>. The C
  \<^verbatim>\<open>int\<close> fields are integers here; the theorems say where they need them non-negative.
\<close>

datatype TokenType =
  TokenType_OpenParen | TokenType_CloseParen | TokenType_Symbol | TokenType_String

record Token =
  type :: TokenType
  contents :: string
  source :: string
  lineNumber :: int
  columnStart :: int
  columnEnd :: int

section \<open>Utilities.hpp\<close>

subsection \<open>What printf writes for \<^verbatim>\<open>%d\<close>\<close>

definition digit_char :: "nat \<Rightarrow> char" where
  "digit_char d = char_of (48 + d)"

fun dec_digits :: "nat \<Rightarrow> string" where
  "dec_digits n = (if n < 10 then [digit_char n] else dec_digits (n div 10) @ [digit_char (n mod 10)])"

declare dec_digits.simps [simp del]

definition printf_d :: "int \<Rightarrow> string" where
  "printf_d i = (if i < 0 then CHR ''-'' # dec_digits (nat (- i)) else dec_digits (nat i))"

definition newline :: char where
  "newline = CHR 0x0A"

definition NUL :: char where
  "NUL = CHR 0x00"

subsection \<open>SafeSnprinf, PrintfBuffer, PrintBuffer\<close>

text \<open>
  \<^verbatim>\<open>snprintf(buffer, size, format, ...)\<close> of the C library, given the fully formatted text:
  it stores at most \<open>size - 1\<close> characters and a terminating NUL, and returns the number of
  characters the whole text has, whether or not it was truncated. The buffer is a character
  array; its capacity is its length.
\<close>

definition snprintf :: "string \<Rightarrow> nat \<Rightarrow> string \<Rightarrow> string \<times> int" where
  "snprintf buffer bufsize formatted =
     (if bufsize = 0 then (buffer, int (length formatted))
      else (let n = min (length formatted) (bufsize - 1)
            in (take n formatted @ [NUL] @ drop (Suc n) buffer, int (length formatted))))"

text \<open>
  The macro:
  \<^verbatim>\<open>{ int _numPrinted = snprintf(buffer, size, format, __VA_ARGS__); buffer[_numPrinted] = '\0'; }\<close>
  A store outside the array is undefined behaviour in C; the model returns it as an error
  carrying the index.
\<close>

datatype memory_error = OutOfBoundsWrite int

definition SafeSnprinf :: "string \<Rightarrow> nat \<Rightarrow> string \<Rightarrow> memory_error + string" where
  "SafeSnprinf buffer bufsize formatted =
     (case snprintf buffer bufsize formatted of
        (buffer', numPrinted) \<Rightarrow>
          if 0 \<le> numPrinted \<and> nat numPrinted < length buffer'
          then Inr (buffer'[nat numPrinted := NUL])
          else Inl (OutOfBoundsWrite numPrinted))"

text \<open>\<^verbatim>\<open>PrintfBuffer(buffer, format, ...)\<close> passes \<^verbatim>\<open>sizeof(buffer)\<close> as the size.\<close>

definition PrintfBuffer :: "string \<Rightarrow> string \<Rightarrow> memory_error + string" where
  "PrintfBuffer buffer formatted = SafeSnprinf buffer (length buffer) formatted"

definition PrintBuffer :: "string \<Rightarrow> string \<Rightarrow> memory_error + string" where
  "PrintBuffer buffer output = SafeSnprinf buffer (length buffer) output"

text \<open>
  The one use in \<^verbatim>\<open>Main.cpp\<close>: \<^verbatim>\<open>char sourceHeadingBuffer[1024] = {0};\<close> filled by
  \<^verbatim>\<open>PrintfBuffer(sourceHeadingBuffer, "#include \"%s.hpp\"\n%s", filename, heading)\<close>, where
  the heading is \<^verbatim>\<open>generatedSourceHeading\<close> of \<^verbatim>\<open>OutputPreambles.hpp\<close> (or the empty string
  when that is null), taken as a parameter.
\<close>

definition sourceHeading_format :: "string \<Rightarrow> string \<Rightarrow> string" where
  "sourceHeading_format filename heading =
     ''#include '' @ [CHR 0x22] @ filename @ ''.hpp'' @ [CHR 0x22] @ [newline] @ heading"

definition main_sourceHeading :: "string \<Rightarrow> string \<Rightarrow> memory_error + string" where
  "main_sourceHeading filename heading =
     PrintfBuffer (replicate 1024 NUL) (sourceHeading_format filename heading)"

subsection \<open>ErrorAtToken, NoteAtToken\<close>

text \<open>
  \<^verbatim>\<open>fprintf(stderr, "%s:%d:%d: error: %s\n", (token).source, (token).lineNumber,
  1 + (token).columnStart, message)\<close>, and the same with \<^verbatim>\<open>note\<close>. The \<^verbatim>\<open>f\<close> variants splice a
  format in place of \<^verbatim>\<open>%s\<close>; their argument here is the formatted message.
\<close>

text \<open>
  The sum \<^verbatim>\<open>1 + (token).columnStart\<close> is a sum of two C \<^verbatim>\<open>int\<close>s. Beyond \<^verbatim>\<open>INT_MAX\<close> it
  is undefined in C and wraps around on the two's-complement machines the program runs
  on, which is what the model computes: the 32-bit sum, read as a signed number.
\<close>

definition int_add :: "int \<Rightarrow> int \<Rightarrow> int" where
  "int_add a b = (a + b + 2147483648) mod 4294967296 - 2147483648"

definition ErrorAtToken :: "Token \<Rightarrow> string \<Rightarrow> string" where
  "ErrorAtToken token message =
     source token @ '':'' @ printf_d (lineNumber token) @ '':'' @
     printf_d (int_add 1 (columnStart token)) @ '': error: '' @ message @ [newline]"




text \<open>
  The tokenizer error that \<^verbatim>\<open>main\<close> reports itself:
  \<^verbatim>\<open>printf("%s:%d: error: %s\n", filename, lineNumber, error);\<close>
\<close>

definition main_tokenizer_error :: "string \<Rightarrow> int \<Rightarrow> string \<Rightarrow> string" where
  "main_tokenizer_error filename lineNo error =
     filename @ '':'' @ printf_d lineNo @ '': error: '' @ error @ [newline]"

subsection \<open>The diagnostic format of the specification\<close>

text \<open>
  The specification's one-line pattern
  \<^verbatim>\<open>^([^:]+):(\d+):(\d+): (error|note): (.*)$\<close>
  as a matcher that returns the five groups. Each group is delimited by a character its own
  class excludes, so the greedy reading is the only one: group 1 is the longest colon-free
  prefix, groups 2 and 3 the longest runs of digits, group 5 everything up to the end of
  the line (\<^verbatim>\<open>.\<close> does not match a newline, \<^verbatim>\<open>$\<close> stands at the end or before a final
  newline).
\<close>

definition is_digit :: "char \<Rightarrow> bool" where
  "is_digit c = (48 \<le> (of_char c :: nat) \<and> (of_char c :: nat) \<le> 57)"

definition not_colon :: "char \<Rightarrow> bool" where
  "not_colon c = (c \<noteq> CHR '':'')"

definition not_newline :: "char \<Rightarrow> bool" where
  "not_newline c = (c \<noteq> newline)"

fun strip_prefix :: "string \<Rightarrow> string \<Rightarrow> string option" where
  "strip_prefix [] s = Some s"
| "strip_prefix (p # ps) [] = None"
| "strip_prefix (p # ps) (c # cs) = (if p = c then strip_prefix ps cs else None)"

definition match_message :: "string \<Rightarrow> string option" where
  "match_message s =
     (let g = takeWhile not_newline s; r = dropWhile not_newline s
      in if r = [] \<or> r = [newline] then Some g else None)"

definition match_kind :: "string \<Rightarrow> (string \<times> string) option" where
  "match_kind s =
     (case strip_prefix ''error'' s of
        Some r \<Rightarrow> Some (''error'', r)
      | None \<Rightarrow>
          (case strip_prefix ''note'' s of
             Some r \<Rightarrow> Some (''note'', r)
           | None \<Rightarrow> None))"

definition match_diagnostic ::
  "string \<Rightarrow> (string \<times> string \<times> string \<times> string \<times> string) option" where
  "match_diagnostic s =
     (let g1 = takeWhile not_colon s; r1 = dropWhile not_colon s in
      if g1 = [] then None else
      case strip_prefix '':'' r1 of None \<Rightarrow> None | Some s2 \<Rightarrow>
      let g2 = takeWhile is_digit s2; r2 = dropWhile is_digit s2 in
      if g2 = [] then None else
      case strip_prefix '':'' r2 of None \<Rightarrow> None | Some s3 \<Rightarrow>
      let g3 = takeWhile is_digit s3; r3 = dropWhile is_digit s3 in
      if g3 = [] then None else
      case strip_prefix '': '' r3 of None \<Rightarrow> None | Some s4 \<Rightarrow>
      case match_kind s4 of None \<Rightarrow> None | Some (g4, r4) \<Rightarrow>
      case strip_prefix '': '' r4 of None \<Rightarrow> None | Some s5 \<Rightarrow>
      case match_message s5 of None \<Rightarrow> None | Some g5 \<Rightarrow>
      Some (g1, g2, g3, g4, g5))"




section \<open>The data model\<close>

text \<open>
  The records below collect the fields that the sources under study read or write
  (\<^verbatim>\<open>Main.cpp\<close>, \<^verbatim>\<open>ModuleManager.hpp\<close>, \<^verbatim>\<open>HotReloadingCodeModifier.cake\<close>) and the fields
  that the specification's data model names. The headers that declare these types
  (\<^verbatim>\<open>Evaluator.hpp\<close>, \<^verbatim>\<open>EvaluatorEnums.hpp\<close>) are not among the sources. Pointers are
  options (\<open>None\<close> is the null pointer); a pointer to a module is its index in the module
  manager's vector; a pointer to a compile-time procedure is the procedure's symbol.
\<close>

text \<open>
  The local \<^verbatim>\<open>defstruct modify-definition\<close> of the hot-reloading hook
  (\<^verbatim>\<open>HotReloadingCodeModifier.cake\<close> lines 68 to 71); it is declared here, before the records
  that share its field names.
\<close>

record modify_definition =
  name :: string
  expanded_definition :: "Token list"
  module :: "nat option"

datatype StringOutputModifierFlags = StringOutMod_None | StringOutMod_NewlineAfter

record StringOutput =
  "output" :: string
  modifiers :: StringOutputModifierFlags
  startToken :: "Token option"

record GeneratorOutput =
  source :: "StringOutput list"
  header :: "StringOutput list"

datatype EvaluatorScope =
  EvaluatorScope_Module | EvaluatorScope_Body | EvaluatorScope_ExpressionList | EvaluatorScope_None

record EvaluatorContext =
  scope :: EvaluatorScope
  module :: "nat option"
  definitionName :: "Token option"
  isRequired :: bool

datatype ObjectType =
  ObjectType_Function | ObjectType_Variable | ObjectType_Macro | ObjectType_Generator
  | ObjectType_CompileTimeFunction

datatype BuildState = NotBuilt | Built | BuildFailed

record ObjectDefinition =
  name :: Token
  type :: ObjectType
  isRequired :: bool
  "output" :: "GeneratorOutput option"
  "context" :: EvaluatorContext
  buildState :: BuildState

text \<open>
  A pending reference (the specification's Reference): the name of the referring
  definition, the token that named the symbol, and the cursor (context, tokens, index) at
  which evaluation resumes. Its required flag is the flag of its context.
\<close>

record ObjectReference =
  referrer :: string
  token :: Token
  "context" :: EvaluatorContext
  tokens :: "Token list"
  startIndex :: nat

datatype FuncPtr = FuncPtr string

datatype CompileTimeVariable =
  CompileTimeBool bool | CompileTimeStringIntMap "(string \<times> int) list"

text \<open>\<^verbatim>\<open>struct Module\<close> of \<^verbatim>\<open>ModuleManager.hpp\<close>, without its build-system fields.\<close>

record Module =
  filename :: string
  tokens :: "Token list"
  generatedOutput :: GeneratorOutput
  skipBuild :: bool

text \<open>
  \<^verbatim>\<open>struct ModuleManager\<close>, without the artifact tables. In the C++ the manager holds the
  environment and the environment points back at the manager; here the environment holds
  the manager's other fields.
\<close>

record ModuleManager =
  globalPseudoInvocationName :: Token
  modules :: "Module list"

text \<open>
  The environment. \<^verbatim>\<open>definitions\<close> and \<^verbatim>\<open>references\<close> are keyed by name and are walked in
  order (the hook iterates over \<^verbatim>\<open>definitions\<close>, the resolver over \<^verbatim>\<open>references\<close>), so
  they are association lists with one entry per key; \<^verbatim>\<open>macros\<close> and \<^verbatim>\<open>generators\<close> are only
  looked up.
\<close>

record EvaluatorEnvironment =
  definitions :: "(string \<times> ObjectDefinition) list"
  macros :: "string \<rightharpoonup> FuncPtr"
  generators :: "string \<rightharpoonup> FuncPtr"
  references :: "(string \<times> ObjectReference list) list"
  comptimeTokens :: "Token list list"
  compileTimeVariables :: "string \<rightharpoonup> CompileTimeVariable"
  moduleManager :: "ModuleManager option"

text \<open>\<^verbatim>\<open>EvaluatorEnvironment environment = {};\<close>\<close>

definition emptyEnvironment :: EvaluatorEnvironment where
  "emptyEnvironment =
     \<lparr>definitions = [], macros = Map.empty, generators = Map.empty, references = [],
      comptimeTokens = [], compileTimeVariables = Map.empty, moduleManager = None\<rparr>"

definition emptyGeneratorOutput :: GeneratorOutput where
  "emptyGeneratorOutput = \<lparr>source = [], header = []\<rparr>"

section \<open>Environment operations\<close>

definition findObjectDefinition :: "EvaluatorEnvironment \<Rightarrow> string \<Rightarrow> ObjectDefinition option" where
  "findObjectDefinition environment nm = map_of (definitions environment) nm"

text \<open>
  Modelled from the spec: \<^verbatim>\<open>addObjectDefinition\<close>, whose body is not among the sources.
  The specification: a definition name uniquely keys the definition table; failure of
  addObjectDefinition on name collision returns an error. The key is the text of the
  definition's name token.
\<close>

definition addObjectDefinition ::
  "EvaluatorEnvironment \<Rightarrow> ObjectDefinition \<Rightarrow> bool \<times> EvaluatorEnvironment" where
  "addObjectDefinition environment definition =
     (case findObjectDefinition environment (contents (name definition)) of
        Some existing \<Rightarrow> (False, environment)
      | None \<Rightarrow>
          (True, environment\<lparr>definitions :=
                   definitions environment @ [(contents (name definition), definition)]\<rparr>))"

text \<open>
  Modelled from the spec: \<^verbatim>\<open>addReference\<close>, whose body is not among the sources. The
  specification: \<^verbatim>\<open>references\<close> maps a name to a list of Reference records; iteration
  order over references is insertion order, and new references are appended.
\<close>

definition addReference ::
  "EvaluatorEnvironment \<Rightarrow> string \<Rightarrow> ObjectReference \<Rightarrow> EvaluatorEnvironment" where
  "addReference environment nm reference =
     (case map_of (references environment) nm of
        None \<Rightarrow> environment\<lparr>references := references environment @ [(nm, [reference])]\<rparr>
      | Some refs \<Rightarrow>
          environment\<lparr>references :=
            map (\<lambda>(k, rs). if k = nm then (k, rs @ [reference]) else (k, rs))
              (references environment)\<rparr>)"

definition referenceIsRequired :: "ObjectReference \<Rightarrow> bool" where
  "referenceIsRequired r = EvaluatorContext.isRequired (ObjectReference.context r)"

section \<open>The reference resolver\<close>

text \<open>
  Modelled from the spec: \<^verbatim>\<open>EvaluateResolveReferences\<close>, which \<^verbatim>\<open>main\<close> calls and whose body
  is not among the sources. The specification gives the algorithm:
  \<^verbatim>\<open>
  repeat
    progress = false
    for each (name, refs) in references:
      if name in definitions:
        mark definitions[name].isRequired |= any(ref.isRequired for ref)
        remove (name, refs); progress = true
    for each required compile-time definition not yet built:
      build it; on success: progress = true
      on failure: record error
  until not progress
  if references non-empty and any required: report missing symbols
  \<close>
  and adds: when a reference marks a definition required, that definition's own outgoing
  references inherit isRequired = true; a definition whose compile-time build fails still
  counts as defined, and the user sees exactly one error for it. The build itself belongs
  to an external collaborator and is a parameter: it says whether the build of a
  definition succeeds.
\<close>

datatype ResolveError =
  UnknownSymbolError string "Token list"
  | CompileTimeBuildError string

text \<open>The outgoing references of the definition \<open>nm\<close> become required.\<close>

definition inheritRequired :: "string \<Rightarrow> ObjectReference \<Rightarrow> ObjectReference" where
  "inheritRequired nm r =
     (if referrer r = nm
      then r\<lparr>ObjectReference.context :=
             (ObjectReference.context r)\<lparr>EvaluatorContext.isRequired := True\<rparr>\<rparr>
      else r)"

definition requireOutgoingReferences ::
  "string \<Rightarrow> (string \<times> ObjectReference list) list \<Rightarrow> (string \<times> ObjectReference list) list" where
  "requireOutgoingReferences nm table = map (\<lambda>(k, rs). (k, map (inheritRequired nm) rs)) table"

text \<open>
  One step of the first loop, for the entry of \<open>nm\<close>: \<open>None\<close> when the name has no entry
  or no definition (no progress).
\<close>

definition resolveReferencesTo ::
  "string \<Rightarrow> EvaluatorEnvironment \<Rightarrow> EvaluatorEnvironment option" where
  "resolveReferencesTo nm environment =
     (case map_of (references environment) nm of
        None \<Rightarrow> None
      | Some refs \<Rightarrow>
          (case findObjectDefinition environment nm of
             None \<Rightarrow> None
           | Some d \<Rightarrow>
               (let marked = list_ex referenceIsRequired refs;
                    defs' = map (\<lambda>(k, x).
                                   if k = nm
                                   then (k, x\<lparr>ObjectDefinition.isRequired :=
                                              ObjectDefinition.isRequired x \<or> marked\<rparr>)
                                   else (k, x))
                                (definitions environment);
                    refs' = filter (\<lambda>(k, rs). k \<noteq> nm) (references environment);
                    refs'' = (if marked then requireOutgoingReferences nm refs' else refs')
                in Some (environment\<lparr>definitions := defs', references := refs''\<rparr>))))"

text \<open>The first loop, over the names that had an entry when the round began.\<close>

fun resolveReferencesPass ::
  "string list \<Rightarrow> EvaluatorEnvironment \<Rightarrow> bool \<Rightarrow> EvaluatorEnvironment \<times> bool" where
  "resolveReferencesPass [] environment progress = (environment, progress)"
| "resolveReferencesPass (nm # rest) environment progress =
     (case resolveReferencesTo nm environment of
        None \<Rightarrow> resolveReferencesPass rest environment progress
      | Some environment' \<Rightarrow> resolveReferencesPass rest environment' True)"

definition isCompileTime :: "ObjectDefinition \<Rightarrow> bool" where
  "isCompileTime d =
     (ObjectDefinition.type d = ObjectType_Macro \<or> ObjectDefinition.type d = ObjectType_Generator
      \<or> ObjectDefinition.type d = ObjectType_CompileTimeFunction)"

text \<open>
  The second loop: every required compile-time definition not yet built is built once;
  the result is the table, whether a build succeeded, and the errors recorded.
\<close>

fun buildRequiredDefinitions ::
  "(ObjectDefinition \<Rightarrow> bool) \<Rightarrow> (string \<times> ObjectDefinition) list \<Rightarrow>
   (string \<times> ObjectDefinition) list \<times> bool \<times> ResolveError list" where
  "buildRequiredDefinitions build [] = ([], False, [])"
| "buildRequiredDefinitions build ((k, d) # rest) =
     (case buildRequiredDefinitions build rest of
        (rest', progress, errors) \<Rightarrow>
          if ObjectDefinition.isRequired d \<and> isCompileTime d \<and> buildState d = NotBuilt
          then (if build d
                then ((k, d\<lparr>buildState := Built\<rparr>) # rest', True, errors)
                else ((k, d\<lparr>buildState := BuildFailed\<rparr>) # rest', progress,
                      CompileTimeBuildError k # errors))
          else ((k, d) # rest', progress, errors))"

text \<open>One round of the \<^verbatim>\<open>repeat\<close>: the new environment, \<^verbatim>\<open>progress\<close>, the errors recorded.\<close>

definition resolveRound ::
  "(ObjectDefinition \<Rightarrow> bool) \<Rightarrow> EvaluatorEnvironment \<Rightarrow>
   EvaluatorEnvironment \<times> bool \<times> ResolveError list" where
  "resolveRound build environment =
     (case resolveReferencesPass (map fst (references environment)) environment False of
        (environment1, progress1) \<Rightarrow>
          (case buildRequiredDefinitions build (definitions environment1) of
             (defs2, progress2, errors) \<Rightarrow>
               (environment1\<lparr>definitions := defs2\<rparr>, progress1 \<or> progress2, errors)))"

text \<open>
  What decreases from round to round: the number of entries of \<^verbatim>\<open>references\<close> plus the
  number of definitions whose build has not been tried.
\<close>

definition pendingWork :: "EvaluatorEnvironment \<Rightarrow> nat" where
  "pendingWork environment =
     length (references environment)
     + length (filter (\<lambda>(k, d). buildState d = NotBuilt) (definitions environment))"

subsection \<open>Every round that makes progress has less work left\<close>

lemma resolveReferencesTo_work:
  assumes "resolveReferencesTo nm e = Some e'"
  shows "length (references e') < length (references e)"
    and "map (\<lambda>(k, d). buildState d) (definitions e') = map (\<lambda>(k, d). buildState d) (definitions e)"
proof -
  obtain refs d where r: "map_of (references e) nm = Some refs"
    and d: "findObjectDefinition e nm = Some d"
    using assms by (auto simp: resolveReferencesTo_def split: option.splits)
  from r have "nm \<in> fst ` set (references e)"
    by (metis map_of_eq_None_iff option.distinct(1))
  then have "\<exists>x \<in> set (references e). \<not> (\<lambda>(k, rs). k \<noteq> nm) x" by auto
  then have lt: "length (filter (\<lambda>(k, rs). k \<noteq> nm) (references e)) < length (references e)"
    by (meson length_filter_less)
  show "length (references e') < length (references e)"
    using assms r d lt
    by (auto simp: resolveReferencesTo_def Let_def requireOutgoingReferences_def)
  show "map (\<lambda>(k, d). buildState d) (definitions e') = map (\<lambda>(k, d). buildState d) (definitions e)"
    using assms r d
    by (auto simp: resolveReferencesTo_def Let_def split: if_splits)
qed

lemma resolveReferencesPass_work:
  "resolveReferencesPass ks e p = (e', p') \<Longrightarrow>
     length (references e') \<le> length (references e)
     \<and> (p' \<and> \<not> p \<longrightarrow> length (references e') < length (references e))
     \<and> map (\<lambda>(k, d). buildState d) (definitions e') = map (\<lambda>(k, d). buildState d) (definitions e)"
proof (induction ks arbitrary: e p)
  case Nil
  then show ?case by simp
next
  case (Cons nm ks)
  show ?case
  proof (cases "resolveReferencesTo nm e")
    case None
    with Cons.prems have "resolveReferencesPass ks e p = (e', p')" by simp
    from Cons.IH [OF this] show ?thesis .
  next
    case (Some e1)
    with Cons.prems have "resolveReferencesPass ks e1 True = (e', p')" by simp
    from Cons.IH [OF this] resolveReferencesTo_work [OF Some] show ?thesis by auto
  qed
qed

definition notBuiltCount :: "(string \<times> ObjectDefinition) list \<Rightarrow> nat" where
  "notBuiltCount defs = length (filter (\<lambda>(k, d). buildState d = NotBuilt) defs)"

lemma notBuiltCount_map:
  "notBuiltCount ds = length (filter (\<lambda>s. s = NotBuilt) (map (\<lambda>(k, d). buildState d) ds))"
  by (induction ds) (auto simp: notBuiltCount_def)

lemma notBuiltCount_states:
  "map (\<lambda>(k, d). buildState d) defs' = map (\<lambda>(k, d). buildState d) defs \<Longrightarrow>
   notBuiltCount defs' = notBuiltCount defs"
  by (simp only: notBuiltCount_map)

lemma buildRequiredDefinitions_work:
  "buildRequiredDefinitions build defs = (defs', p, errs) \<Longrightarrow>
     notBuiltCount defs' \<le> notBuiltCount defs \<and> (p \<longrightarrow> notBuiltCount defs' < notBuiltCount defs)"
proof (induction defs arbitrary: defs' p errs)
  case Nil
  then show ?case by simp
next
  case (Cons kd defs)
  obtain k d where kd: "kd = (k, d)" by (cases kd)
  obtain r q es where rec: "buildRequiredDefinitions build defs = (r, q, es)"
    by (cases "buildRequiredDefinitions build defs")
  from Cons.IH [OF rec] have ih: "notBuiltCount r \<le> notBuiltCount defs"
    "q \<longrightarrow> notBuiltCount r < notBuiltCount defs" by auto
  show ?case
    using Cons.prems ih unfolding kd
    by (auto simp: rec notBuiltCount_def split: if_splits)
qed

lemma resolveRound_decreases:
  assumes "resolveRound build e = (e', True, errs)"
  shows "pendingWork e' < pendingWork e"
proof -
  obtain e1 p1 where pass: "resolveReferencesPass (map fst (references e)) e False = (e1, p1)"
    by (cases "resolveReferencesPass (map fst (references e)) e False")
  obtain d2 p2 es where b: "buildRequiredDefinitions build (definitions e1) = (d2, p2, es)"
    by (cases "buildRequiredDefinitions build (definitions e1)")
  from assms pass b have e': "e' = e1\<lparr>definitions := d2\<rparr>" and p: "p1 \<or> p2"
    by (auto simp: resolveRound_def)
  note w1 = resolveReferencesPass_work [OF pass]
  note w2 = buildRequiredDefinitions_work [OF b]
  have c1: "notBuiltCount (definitions e1) = notBuiltCount (definitions e)"
    using w1 by (intro notBuiltCount_states) simp
  have pw: "\<And>x. pendingWork x = length (references x) + notBuiltCount (definitions x)"
    by (simp add: pendingWork_def notBuiltCount_def)
  show ?thesis
    using p w1 w2 c1 by (auto simp: pw e')
qed

text \<open>The \<^verbatim>\<open>repeat ... until not progress\<close> loop; it ends because every round that makes
  progress has less pending work.\<close>

function resolveLoop ::
  "(ObjectDefinition \<Rightarrow> bool) \<Rightarrow> EvaluatorEnvironment \<Rightarrow> ResolveError list \<Rightarrow>
   EvaluatorEnvironment \<times> ResolveError list" where
  "resolveLoop build environment errors =
     (case resolveRound build environment of
        (environment', progress, errors') \<Rightarrow>
          if progress then resolveLoop build environment' (errors @ errors')
          else (environment', errors @ errors'))"
  by pat_completeness auto
termination
  by (relation "measure (\<lambda>(build, environment, errors). pendingWork environment)")
     (auto dest: resolveRound_decreases [OF sym])

declare resolveLoop.simps [simp del]


text \<open>
  \<^verbatim>\<open>if references non-empty and any required: report missing symbols\<close>: one
  UnknownSymbolError for each name left in \<^verbatim>\<open>references\<close>, blamed to the tokens that
  referred to it.
\<close>

definition missingSymbols :: "EvaluatorEnvironment \<Rightarrow> ResolveError list" where
  "missingSymbols environment =
     (if references environment \<noteq> []
         \<and> list_ex (\<lambda>(k, rs). list_ex referenceIsRequired rs) (references environment)
      then map (\<lambda>(k, rs). UnknownSymbolError k (map ObjectReference.token rs))
             (references environment)
      else [])"

definition EvaluateResolveReferences ::
  "(ObjectDefinition \<Rightarrow> bool) \<Rightarrow> EvaluatorEnvironment \<Rightarrow>
   bool \<times> EvaluatorEnvironment \<times> ResolveError list" where
  "EvaluateResolveReferences build environment =
     (case resolveLoop build environment [] of
        (environment', buildErrors) \<Rightarrow>
          (let errors = buildErrors @ missingSymbols environment'
           in (errors = [], environment', errors)))"

definition referenceTokens ::
  "(string \<times> ObjectReference list) list \<Rightarrow> (string \<times> Token list) list" where
  "referenceTokens table = map (\<lambda>(k, rs). (k, map ObjectReference.token rs)) table"

fun unknownSymbolsReported :: "ResolveError list \<Rightarrow> (string \<times> Token list) list" where
  "unknownSymbolsReported [] = []"
| "unknownSymbolsReported (UnknownSymbolError k ts # es) = (k, ts) # unknownSymbolsReported es"
| "unknownSymbolsReported (CompileTimeBuildError k # es) = unknownSymbolsReported es"

text \<open>Notions used to state what the resolver does.\<close>

definition isDefined :: "EvaluatorEnvironment \<Rightarrow> string \<Rightarrow> bool" where
  "isDefined environment nm = (findObjectDefinition environment nm \<noteq> None)"


definition isRequiredIn :: "EvaluatorEnvironment \<Rightarrow> string \<Rightarrow> bool" where
  "isRequiredIn environment nm =
     (case findObjectDefinition environment nm of
        Some d \<Rightarrow> ObjectDefinition.isRequired d
      | None \<Rightarrow> False)"

definition hasRequiredUnsatisfied :: "EvaluatorEnvironment \<Rightarrow> bool" where
  "hasRequiredUnsatisfied environment =
     list_ex (\<lambda>(k, rs). \<not> isDefined environment k \<and> list_ex referenceIsRequired rs)
       (references environment)"

definition unsatisfiedReferences :: "EvaluatorEnvironment \<Rightarrow> (string \<times> Token list) list" where
  "unsatisfiedReferences environment =
     filter (\<lambda>(k, ts). \<not> isDefined environment k) (referenceTokens (references environment))"

section \<open>Main.cpp\<close>

text \<open>
  \<^verbatim>\<open>main\<close> calls functions whose bodies are not among the sources: the tokenizer, the
  built-in generator catalogue, the evaluator, the resolver and the writer, and it reads
  the preamble constants of \<^verbatim>\<open>OutputPreambles.hpp\<close>. They are the fields of one record of
  parameters. The evaluator and the resolver receive \<^verbatim>\<open>GeneratorOutput&\<close> and pointers into
  it, so they return the output they may have written. \<^verbatim>\<open>ext_zeroScope\<close> is the enumerator
  of \<^verbatim>\<open>EvaluatorScope\<close> with value 0, which a zero-initialised context holds.
\<close>

record WriterOutputSettings =
  sourceCakelispFilename :: string
  sourceHeading :: "string option"
  sourceFooter :: "string option"
  headerHeading :: "string option"
  headerFooter :: "string option"

record Externals =
  ext_tokenizeLine :: "string \<Rightarrow> string \<Rightarrow> int \<Rightarrow> Token list \<Rightarrow> string option \<times> Token list"
  ext_validateParentheses :: "Token list \<Rightarrow> bool"
  ext_fundamentalGenerators :: "(string \<times> FuncPtr) list"
  ext_EvaluateGenerateAll_Recursive ::
    "EvaluatorEnvironment \<Rightarrow> EvaluatorContext \<Rightarrow> Token list \<Rightarrow> int \<Rightarrow> StringOutput \<Rightarrow>
     GeneratorOutput \<Rightarrow> int \<times> EvaluatorEnvironment \<times> GeneratorOutput"
  ext_EvaluateResolveReferences ::
    "EvaluatorEnvironment \<Rightarrow> GeneratorOutput \<Rightarrow> bool \<times> EvaluatorEnvironment \<times> GeneratorOutput"
  ext_writeGeneratorOutput :: "GeneratorOutput \<Rightarrow> WriterOutputSettings \<Rightarrow> bool"
  ext_generatedSourceHeading :: "string option"
  ext_generatedSourceFooter :: "string option"
  ext_generatedHeaderHeading :: "string option"
  ext_generatedHeaderFooter :: "string option"
  ext_zeroScope :: EvaluatorScope

datatype MainOutcome = Exited int | UndefinedBehaviour memory_error

record MainResult =
  outcome :: MainOutcome
  printed :: string

text \<open>
  The tokenizing loop. The file is the list of the strings that successive calls of
  \<^verbatim>\<open>fgets(lineBuffer, sizeof(lineBuffer), file)\<close> return. The loop stops at the first
  tokenizer error with the line \<^verbatim>\<open>main\<close> prints for it.
\<close>

fun main_tokenize ::
  "Externals \<Rightarrow> string \<Rightarrow> string list \<Rightarrow> int \<Rightarrow> Token list \<Rightarrow> string + (Token list \<times> int)" where
  "main_tokenize ext fname [] lineNo toks = Inr (toks, lineNo)"
| "main_tokenize ext fname (lineBuffer # rest) lineNo toks =
     (case ext_tokenizeLine ext lineBuffer fname lineNo toks of
        (Some error, toks') \<Rightarrow> Inl (main_tokenizer_error fname lineNo error)
      | (None, toks') \<Rightarrow> main_tokenize ext fname rest (lineNo + 1) toks')"

text \<open>
  Modelled from the spec: \<^verbatim>\<open>importFundamentalGenerators\<close>, whose body is not among the
  sources. The specification: the environment receives built-in generators at startup;
  duplicate registration in \<^verbatim>\<open>generators\<close> replaces silently. The catalogue itself is a
  parameter.
\<close>

definition importFundamentalGenerators ::
  "Externals \<Rightarrow> EvaluatorEnvironment \<Rightarrow> EvaluatorEnvironment" where
  "importFundamentalGenerators ext environment =
     environment\<lparr>generators := generators environment ++ map_of (ext_fundamentalGenerators ext)\<rparr>"

text \<open>\<^verbatim>\<open>Token modulePsuedoInvocationName = {TokenType_Symbol, "<module>", filename, 1, 0, 1};\<close>\<close>

definition modulePsuedoInvocationName :: "string \<Rightarrow> Token" where
  "modulePsuedoInvocationName fname =
     \<lparr>Token.type = TokenType_Symbol, contents = ''<module>'', Token.source = fname,
      lineNumber = 1, columnStart = 0, columnEnd = 1\<rparr>"

text \<open>
  \<^verbatim>\<open>ObjectDefinition moduleDefinition = {};\<close> followed by the four assignments of lines
  122 to 127; the output is \<^verbatim>\<open>new GeneratorOutput\<close>.
\<close>

definition zeroContext :: "Externals \<Rightarrow> EvaluatorContext" where
  "zeroContext ext =
     \<lparr>scope = ext_zeroScope ext, module = None, definitionName = None,
      EvaluatorContext.isRequired = False\<rparr>"

definition moduleDefinition :: "Externals \<Rightarrow> string \<Rightarrow> ObjectDefinition" where
  "moduleDefinition ext fname =
     \<lparr>name = modulePsuedoInvocationName fname,
      ObjectDefinition.type = ObjectType_Function,
      ObjectDefinition.isRequired = True,
      output = Some emptyGeneratorOutput,
      ObjectDefinition.context = zeroContext ext,
      buildState = NotBuilt\<rparr>"

text \<open>
  \<^verbatim>\<open>EvaluatorContext moduleContext = {};\<close> followed by the three assignments of lines 133
  to 137.
\<close>

definition moduleContext :: "string \<Rightarrow> EvaluatorContext" where
  "moduleContext fname =
     \<lparr>scope = EvaluatorScope_Module, module = None,
      definitionName = Some (modulePsuedoInvocationName fname),
      EvaluatorContext.isRequired = True\<rparr>"

definition bodyDelimiterTemplate :: StringOutput where
  "bodyDelimiterTemplate =
     \<lparr>StringOutput.output = [], modifiers = StringOutMod_NewlineAfter, startToken = None\<rparr>"

text \<open>
  Lines 116 to 131: the environment as it is when the evaluator is called. The result of
  \<^verbatim>\<open>addObjectDefinition\<close> is not looked at.
\<close>

definition main_environment :: "Externals \<Rightarrow> string \<Rightarrow> EvaluatorEnvironment" where
  "main_environment ext fname =
     (let environment0 = importFundamentalGenerators ext emptyEnvironment;
          environment1 = snd (addObjectDefinition environment0 (moduleDefinition ext fname))
      in environment1\<lparr>macros := (macros environment1)(''square'' \<mapsto> FuncPtr ''SquareMacro'')\<rparr>)"

definition c_string :: "string \<Rightarrow> string" where
  "c_string buffer = takeWhile (\<lambda>c. c \<noteq> NUL) buffer"

definition string_or_empty :: "string option \<Rightarrow> string" where
  "string_or_empty p = (case p of Some s \<Rightarrow> s | None \<Rightarrow> [])"

text \<open>Lines 158 to 188: the final output.\<close>

definition main_write :: "Externals \<Rightarrow> string \<Rightarrow> GeneratorOutput \<Rightarrow> string \<Rightarrow> MainResult" where
  "main_write ext fname genOutput out =
     (case main_sourceHeading fname (string_or_empty (ext_generatedSourceHeading ext)) of
        Inl e \<Rightarrow> \<lparr>outcome = UndefinedBehaviour e, printed = out\<rparr>
      | Inr sourceHeadingBuffer \<Rightarrow>
          (let outputSettings =
                 \<lparr>sourceCakelispFilename = fname,
                  sourceHeading = Some (c_string sourceHeadingBuffer),
                  sourceFooter = ext_generatedSourceFooter ext,
                  headerHeading = ext_generatedHeaderHeading ext,
                  headerFooter = ext_generatedHeaderFooter ext\<rparr>;
               out' = out @ [newline] @ ''Result:'' @ [newline]
           in if \<not> ext_writeGeneratorOutput ext genOutput outputSettings
              then \<lparr>outcome = Exited 1, printed = out'\<rparr>
              else \<lparr>outcome = Exited 0, printed = out'\<rparr>))"

text \<open>Lines 138 to 156: the one evaluation pass, then the resolver.\<close>

definition main_generate :: "Externals \<Rightarrow> string \<Rightarrow> Token list \<Rightarrow> string \<Rightarrow> MainResult" where
  "main_generate ext fname toks out =
     (case ext_EvaluateGenerateAll_Recursive ext (main_environment ext fname)
             (moduleContext fname) toks 0 bodyDelimiterTemplate emptyGeneratorOutput of
        (numErrors, environment, genOutput) \<Rightarrow>
          if numErrors \<noteq> 0 then \<lparr>outcome = Exited 1, printed = out\<rparr>
          else (case ext_EvaluateResolveReferences ext environment genOutput of
                  (ok, environment', genOutput') \<Rightarrow>
                    if \<not> ok then \<lparr>outcome = Exited 1, printed = out\<rparr>
                    else main_write ext fname genOutput' out))"

text \<open>
  \<^verbatim>\<open>main(argc, argv)\<close>; \<open>files\<close> gives the content of the files that can be opened. The
  two printing branches guarded by \<^verbatim>\<open>verbose\<close> and \<^verbatim>\<open>printTokenizerOutput\<close>, both false, are
  left out.
\<close>

definition main :: "Externals \<Rightarrow> string list \<Rightarrow> (string \<rightharpoonup> string list) \<Rightarrow> MainResult" where
  "main ext argv files =
     (if length argv \<noteq> 2
      then \<lparr>outcome = Exited 1, printed = ''Need to provide a file to parse'' @ [newline]\<rparr>
      else
        (let fname = argv ! 1;
             out1 = [newline] @ ''Tokenization:'' @ [newline]
         in case files fname of
              None \<Rightarrow>
                \<lparr>outcome = Exited 1,
                 printed = out1 @ ''Error: Could not open '' @ fname @ [newline]\<rparr>
            | Some fileLines \<Rightarrow>
                (let out2 = out1 @ ''Opened '' @ fname @ [newline]
                 in case main_tokenize ext fname fileLines 1 [] of
                      Inl diagnostic \<Rightarrow> \<lparr>outcome = Exited 1, printed = out2 @ diagnostic\<rparr>
                    | Inr (toks, lineNo) \<Rightarrow>
                        (let out3 = out2 @ ''Tokenized '' @ printf_d (lineNo - 1)
                                      @ '' lines'' @ [newline]
                         in if \<not> ext_validateParentheses ext toks
                            then \<lparr>outcome = Exited 1, printed = out3\<rparr>
                            else main_generate ext fname toks
                                   (out3 @ [newline] @ ''Parsing and code generation:''
                                      @ [newline])))))"

section \<open>HotReloadingCodeModifier.cake\<close>

text \<open>
  The hook \<^verbatim>\<open>make-code-hot-reloadable\<close> (lines 53 to 331). It calls functions and macros
  whose bodies are not among the sources; they are the fields of one record of parameters.
  \<^verbatim>\<open>mach_tokenExpression\<close> is what \<^verbatim>\<open>token-splice-addr\<close> copies for a token of a vector: the
  expression that starts at that index (\<^verbatim>\<open>FindTokenExpressionEnd\<close>).
\<close>

record Machinery =
  mach_CreateDefinitionCopyMacroExpanded :: "ObjectDefinition \<Rightarrow> Token list option"
  mach_getExpectedArgument :: "string \<Rightarrow> Token list \<Rightarrow> int \<Rightarrow> int \<Rightarrow> int \<Rightarrow> int"
  mach_getArgument :: "Token list \<Rightarrow> int \<Rightarrow> int \<Rightarrow> int \<Rightarrow> int"
  mach_tokenExpression :: "Token list \<Rightarrow> int \<Rightarrow> Token list"
  mach_lispNameStyleToCNameStyle :: "string \<Rightarrow> string"
  mach_ReplaceAndEvaluateDefinition ::
    "EvaluatorEnvironment \<Rightarrow> string \<Rightarrow> Token list \<Rightarrow> bool \<times> EvaluatorEnvironment"
  mach_EvaluateGenerate_Recursive ::
    "EvaluatorEnvironment \<Rightarrow> EvaluatorContext \<Rightarrow> Token list \<Rightarrow> int \<Rightarrow> GeneratorOutput \<Rightarrow>
     int \<times> EvaluatorEnvironment \<times> GeneratorOutput"

text \<open>
  What a call of the hook ends with: the value it returns, or undefined behaviour (a read
  out of range, a store out of range, or a read through a null pointer).
\<close>

datatype HookOutcome = HookReturned bool | HookFault

text \<open>
  The macro \<^verbatim>\<open>get-or-create-comptime-var\<close> of \<^verbatim>\<open>Macros.cake\<close>, which is not among the
  sources; it is modelled from its name and from its two uses in the hook: the variable
  of that name and type if the environment has it, else a new one with the initial value,
  registered in the environment. \<open>None\<close> is the macro's \<^verbatim>\<open>return false\<close>, when the name is
  taken by a variable of another type.
\<close>

fun sameCompileTimeType :: "CompileTimeVariable \<Rightarrow> CompileTimeVariable \<Rightarrow> bool" where
  "sameCompileTimeType (CompileTimeBool a) (CompileTimeBool b) = True"
| "sameCompileTimeType (CompileTimeStringIntMap a) (CompileTimeStringIntMap b) = True"
| "sameCompileTimeType a b = False"

definition get_or_create_comptime_var ::
  "EvaluatorEnvironment \<Rightarrow> string \<Rightarrow> CompileTimeVariable \<Rightarrow>
   (EvaluatorEnvironment \<times> CompileTimeVariable) option" where
  "get_or_create_comptime_var environment varName initial =
     (case compileTimeVariables environment varName of
        Some v \<Rightarrow> if sameCompileTimeType v initial then Some (environment, v) else None
      | None \<Rightarrow>
          Some (environment\<lparr>compileTimeVariables :=
                   (compileTimeVariables environment)(varName \<mapsto> initial)\<rparr>, initial))"

definition set_comptime_var ::
  "EvaluatorEnvironment \<Rightarrow> string \<Rightarrow> CompileTimeVariable \<Rightarrow> EvaluatorEnvironment" where
  "set_comptime_var environment varName v =
     environment\<lparr>compileTimeVariables := (compileTimeVariables environment)(varName \<mapsto> v)\<rparr>"

text \<open>
  Tokens that \<^verbatim>\<open>tokenize-push\<close> makes from the text of its template. The macro is not among
  the sources; the positions it gives its tokens are not modelled.
\<close>

definition pushedToken :: "TokenType \<Rightarrow> string \<Rightarrow> Token" where
  "pushedToken ty text =
     \<lparr>Token.type = ty, contents = text, Token.source = ''HotReloadingCodeModifier.cake'',
      lineNumber = 0, columnStart = 0, columnEnd = 0\<rparr>"

definition openParen :: Token where
  "openParen = pushedToken TokenType_OpenParen ''(''"

definition closeParen :: Token where
  "closeParen = pushedToken TokenType_CloseParen '')''"

definition sym :: "string \<Rightarrow> Token" where
  "sym text = pushedToken TokenType_Symbol text"

definition at_index :: "Token list \<Rightarrow> int \<Rightarrow> Token option" where
  "at_index toks i = (if 0 \<le> i \<and> nat i < length toks then Some (toks ! nat i) else None)"

subsection \<open>Lines 74 to 92: the variables to modify\<close>

fun collect_variables ::
  "Machinery \<Rightarrow> (string \<times> ObjectDefinition) list \<Rightarrow> modify_definition list \<Rightarrow>
   modify_definition list option" where
  "collect_variables m [] acc = Some acc"
| "collect_variables m ((first, second) # rest) acc =
     (if ObjectDefinition.type second \<noteq> ObjectType_Variable then collect_variables m rest acc
      else if first = ''rooms'' then collect_variables m rest acc
      else (case mach_CreateDefinitionCopyMacroExpanded m second of
              None \<Rightarrow> None
            | Some expanded \<Rightarrow>
                collect_variables m rest
                  (acc @ [\<lparr>modify_definition.name = first, expanded_definition = expanded,
                           modify_definition.module =
                             EvaluatorContext.module (ObjectDefinition.context second)\<rparr>])))"

subsection \<open>Lines 94 to 125: the functions that refer to them\<close>

text \<open>
  The inner loop of lines 112 to 116 (and of 275 to 279): whether the symbol is the name
  of a variable to modify, the name being token 2 of the variable's expanded definition.
  \<open>None\<close> is the read \<^verbatim>\<open>(at 2 ...)\<close> beyond the end of a vector.
\<close>

fun is_modified_variable :: "Token \<Rightarrow> modify_definition list \<Rightarrow> bool option" where
  "is_modified_variable t [] = Some False"
| "is_modified_variable t (v # vs) =
     (if length (expanded_definition v) \<le> 2 then None
      else if contents t = contents (expanded_definition v ! 2) then Some True
      else is_modified_variable t vs)"

fun reference_found :: "Token list \<Rightarrow> modify_definition list \<Rightarrow> bool \<Rightarrow> bool option" where
  "reference_found [] vars found = Some found"
| "reference_found (t # ts) vars found =
     (if Token.type t \<noteq> TokenType_Symbol then reference_found ts vars found
      else (case is_modified_variable t vars of
              None \<Rightarrow> None
            | Some True \<Rightarrow> reference_found ts vars True
            | Some False \<Rightarrow> reference_found ts vars found))"

text \<open>The result: \<open>Inl\<close> the outcome the hook ends with at once, \<open>Inr\<close> the list.\<close>

fun collect_references ::
  "Machinery \<Rightarrow> modify_definition list \<Rightarrow> (string \<times> ObjectDefinition) list \<Rightarrow>
   modify_definition list \<Rightarrow> HookOutcome + modify_definition list" where
  "collect_references m vars [] acc = Inr acc"
| "collect_references m vars ((first, second) # rest) acc =
     (if ObjectDefinition.type second \<noteq> ObjectType_Function
      then collect_references m vars rest acc
      else (case mach_CreateDefinitionCopyMacroExpanded m second of
              None \<Rightarrow> Inl (HookReturned False)
            | Some expanded \<Rightarrow>
                (case reference_found expanded vars False of
                   None \<Rightarrow> Inl HookFault
                 | Some False \<Rightarrow> collect_references m vars rest acc
                 | Some True \<Rightarrow>
                     collect_references m vars rest
                       (acc @ [\<lparr>modify_definition.name = first, expanded_definition = expanded,
                                modify_definition.module =
                                  EvaluatorContext.module (ObjectDefinition.context second)\<rparr>]))))"

subsection \<open>Lines 132 to 259: pointers for the variables, and their initializers\<close>

text \<open>
  \<^verbatim>\<open>EvaluateGenerate_Recursive(environment, context, tokens, 0, *module->generatedOutput)\<close>:
  the module is read through its pointer, and what the evaluator wrote is stored back.
  \<open>None\<close> is a read through a pointer that is null or dangling.
\<close>

definition evaluate_into_module ::
  "Machinery \<Rightarrow> EvaluatorEnvironment \<Rightarrow> EvaluatorContext \<Rightarrow> Token list \<Rightarrow> nat \<Rightarrow>
   (int \<times> EvaluatorEnvironment) option" where
  "evaluate_into_module m environment ctx toks p =
     (case moduleManager environment of
        None \<Rightarrow> None
      | Some mm \<Rightarrow>
          if p < length (modules mm)
          then (case mach_EvaluateGenerate_Recursive m environment ctx toks 0
                       (generatedOutput (modules mm ! p)) of
                  (numErrors, environment', out') \<Rightarrow>
                    (case moduleManager environment' of
                       None \<Rightarrow> None
                     | Some mm' \<Rightarrow>
                         if p < length (modules mm')
                         then Some (numErrors,
                                environment'\<lparr>moduleManager :=
                                  Some (mm'\<lparr>modules :=
                                    (modules mm')[p := (modules mm' ! p)\<lparr>generatedOutput := out'\<rparr>]\<rparr>)\<rparr>)
                         else None))
          else None)"

definition module_filename :: "EvaluatorEnvironment \<Rightarrow> nat \<Rightarrow> string option" where
  "module_filename environment p =
     (case moduleManager environment of
        None \<Rightarrow> None
      | Some mm \<Rightarrow> if p < length (modules mm) then Some (filename (modules mm ! p)) else None)"

text \<open>
  \<^verbatim>\<open>map[key] = value\<close> on a \<^verbatim>\<open>std::unordered_map\<close>. The order in which such a map is
  walked is not given by the language; here it is the order of first insertion.
\<close>

fun assign_key :: "('k \<times> 'v) list \<Rightarrow> 'k \<Rightarrow> 'v \<Rightarrow> ('k \<times> 'v) list" where
  "assign_key [] k v = [(k, v)]"
| "assign_key ((k', v') # rest) k v =
     (if k' = k then (k, v) # rest else (k', v') # assign_key rest k v)"

text \<open>The token vectors of lines 166 to 170, 200 to 201, 206 to 218 and 246.\<close>

definition new_var_tokens :: "Machinery \<Rightarrow> Token list \<Rightarrow> int \<Rightarrow> int \<Rightarrow> Token list" where
  "new_var_tokens m toks varNameIndex typeIndex =
     [openParen] @ mach_tokenExpression m toks 1 @ mach_tokenExpression m toks varNameIndex
     @ [openParen, sym ''*''] @ mach_tokenExpression m toks typeIndex
     @ [closeParen, sym ''null'', closeParen]"

definition assignment_tokens :: "Machinery \<Rightarrow> Token list \<Rightarrow> int \<Rightarrow> int \<Rightarrow> Token list" where
  "assignment_tokens m toks varNameIndex assignmentIndex =
     [openParen, sym ''set'', openParen, sym ''deref''] @ mach_tokenExpression m toks varNameIndex
     @ [closeParen] @ mach_tokenExpression m toks assignmentIndex @ [closeParen]"

definition initializer_procedure_tokens ::
  "Machinery \<Rightarrow> Token list \<Rightarrow> int \<Rightarrow> int \<Rightarrow> Token \<Rightarrow> Token \<Rightarrow> Token list \<Rightarrow> Token list" where
  "initializer_procedure_tokens m toks varNameIndex typeIndex initFunctionName stringVarName
       assignment =
     (let varName = mach_tokenExpression m toks varNameIndex;
          typeStart = mach_tokenExpression m toks typeIndex
      in [openParen, sym ''defun'', initFunctionName, openParen, closeParen,
          openParen, sym ''var'', sym ''existing-value'', openParen, sym ''*'', sym ''void'',
            closeParen, sym ''nullptr'', closeParen,
          openParen, sym ''if'',
            openParen, sym ''hot-reload-find-variable'', stringVarName,
              openParen, sym ''addr'', sym ''existing-value'', closeParen, closeParen,
            openParen, sym ''set''] @ varName @
           [openParen, sym ''type-cast'', sym ''existing-value'', openParen, sym ''*''] @ typeStart @
           [closeParen, closeParen, closeParen,
            openParen, sym ''block'',
              openParen, sym ''set''] @ varName @ [openParen, sym ''new''] @ typeStart @
             [closeParen, closeParen] @
              assignment @
             [openParen, sym ''hot-reload-register-variable'', stringVarName] @ varName @
             [closeParen, closeParen, closeParen, closeParen])"

definition import_hot_reloading_tokens :: "Token list" where
  "import_hot_reloading_tokens =
     [openParen, sym ''import'', sym ''&decls-only'',
      pushedToken TokenType_String ''HotReloading.cake'', closeParen]"

text \<open>
  Lines 229 to 259, after the variable was replaced: the initializer is evaluated into the
  variable's module, after the import of \<^verbatim>\<open>HotReloading.cake\<close> if the module has none yet.
  The state is the environment and \<^verbatim>\<open>was-code-modified\<close>.
\<close>

definition evaluate_initializer ::
  "Machinery \<Rightarrow> nat \<Rightarrow> Token list \<Rightarrow> EvaluatorEnvironment \<Rightarrow> bool \<Rightarrow>
   (HookOutcome \<times> EvaluatorEnvironment \<times> bool) + (EvaluatorEnvironment \<times> bool)" where
  "evaluate_initializer m p initializerTokens environment wcm =
     (case (moduleManager environment, module_filename environment p,
            compileTimeVariables environment ''modules-with-import'') of
        (Some mm, Some moduleFilename, Some (CompileTimeStringIntMap withImport)) \<Rightarrow>
          (let initializerContext =
                 \<lparr>scope = EvaluatorScope_Module, EvaluatorContext.module = Some p,
                  definitionName = Some (globalPseudoInvocationName mm),
                  EvaluatorContext.isRequired = True\<rparr>;
               imported =
                 (if map_of withImport moduleFilename = None
                  then (let environment1 =
                              environment\<lparr>comptimeTokens :=
                                comptimeTokens environment @ [import_hot_reloading_tokens]\<rparr>
                        in case evaluate_into_module m environment1 initializerContext
                                  import_hot_reloading_tokens p of
                             None \<Rightarrow> Inl (HookFault, environment1, wcm)
                           | Some (numErrors, environment2) \<Rightarrow>
                               if numErrors \<noteq> 0 then Inl (HookReturned False, environment2, wcm)
                               else Inr (set_comptime_var environment2 ''modules-with-import''
                                           (CompileTimeStringIntMap
                                              (assign_key withImport moduleFilename 1))))
                  else Inr environment)
           in case imported of
                Inl stop \<Rightarrow> Inl stop
              | Inr environment3 \<Rightarrow>
                  (case evaluate_into_module m environment3 initializerContext initializerTokens p of
                     None \<Rightarrow> Inl (HookFault, environment3, wcm)
                   | Some (numErrors, environment4) \<Rightarrow>
                       if numErrors \<noteq> 0 then Inl (HookReturned False, environment4, wcm)
                       else Inr (environment4, wcm)))
      | _ \<Rightarrow> Inl (HookFault, environment, wcm))"

text \<open>
  One turn of the loop of line 133, in three parts. The state is the environment,
  \<^verbatim>\<open>was-code-modified\<close>, \<^verbatim>\<open>initializer-names\<close> and \<^verbatim>\<open>modules-to-import\<close>; \<open>Inl\<close> is the
  outcome the hook ends with at once.
\<close>

text \<open>Lines 141 to 157: \<open>None\<close> is \<^verbatim>\<open>return false\<close>.\<close>

definition variable_indices :: "Machinery \<Rightarrow> Token list \<Rightarrow> (int \<times> int) option" where
  "variable_indices m toks =
     (let endInvocationIndex = int (length toks) - 1;
          varNameIndex =
            mach_getExpectedArgument m ''expected variable name'' toks 0 1 endInvocationIndex
      in if varNameIndex = - 1 then None
         else (let typeIndex =
                     mach_getExpectedArgument m ''expected variable type'' toks 0 2
                       endInvocationIndex
               in if typeIndex = - 1 then None else Some (varNameIndex, typeIndex)))"

text \<open>
  Lines 176 to 188: the name of the initializer, printed into a 256-byte buffer with
  \<^verbatim>\<open>PrintfBuffer\<close>; \<open>None\<close> is a store beyond the buffer.
\<close>

definition init_function_name :: "Machinery \<Rightarrow> Token \<Rightarrow> Token option" where
  "init_function_name m varName =
     (case PrintfBuffer (replicate 256 NUL)
             (''hotReloadInitVar_'' @ mach_lispNameStyleToCNameStyle m (contents varName)) of
        Inl e \<Rightarrow> None
      | Inr initFunctionNameBuffer \<Rightarrow>
          Some (varName\<lparr>contents := c_string initFunctionNameBuffer\<rparr>))"

text \<open>
  Lines 190 to 259. Line 192 has already read \<^verbatim>\<open>module->filename\<close> when line 230 tests the
  pointer, so a null module is a fault before that test and the test never fails.
\<close>

definition pointerify_replace ::
  "Machinery \<Rightarrow> Token list \<Rightarrow> int \<Rightarrow> int \<Rightarrow> Token \<Rightarrow> Token \<Rightarrow> nat \<Rightarrow> string \<Rightarrow> Token list \<Rightarrow>
   EvaluatorEnvironment \<times> bool \<times> Token list \<times> (string \<times> Token) list \<Rightarrow>
   (HookOutcome \<times> EvaluatorEnvironment \<times> bool)
   + (EvaluatorEnvironment \<times> bool \<times> Token list \<times> (string \<times> Token) list)" where
  "pointerify_replace m toks varNameIndex typeIndex varName initFunctionName p moduleFilename
       newVarTokens st =
     (case st of (environment1, wcm, initializerNames, modulesToImport) \<Rightarrow>
        (let assignmentIndex = mach_getArgument m toks 0 3 (int (length toks) - 1)
         in if assignmentIndex \<noteq> - 1 \<and> at_index toks assignmentIndex = None
            then Inl (HookFault, environment1, wcm)
            else
              (let assignment =
                     (if assignmentIndex \<noteq> - 1
                      then assignment_tokens m toks varNameIndex assignmentIndex else []);
                   initializerTokens =
                     initializer_procedure_tokens m toks varNameIndex typeIndex initFunctionName
                       (varName\<lparr>Token.type := TokenType_String\<rparr>) assignment;
                   environment2 =
                     environment1\<lparr>comptimeTokens :=
                       comptimeTokens environment1 @ [initializerTokens]\<rparr>
               in case mach_ReplaceAndEvaluateDefinition m environment2 (contents varName)
                         newVarTokens of
                    (replaced, environment3) \<Rightarrow>
                      if \<not> replaced then Inl (HookReturned False, environment3, wcm)
                      else (case evaluate_initializer m p initializerTokens environment3 True of
                              Inl stop \<Rightarrow> Inl stop
                            | Inr (environment4, wcm') \<Rightarrow>
                                Inr (environment4, wcm', initializerNames @ [initFunctionName],
                                     assign_key modulesToImport moduleFilename
                                       initFunctionName)))))"

definition pointerify_variable ::
  "Machinery \<Rightarrow> modify_definition \<Rightarrow>
   EvaluatorEnvironment \<times> bool \<times> Token list \<times> (string \<times> Token) list \<Rightarrow>
   (HookOutcome \<times> EvaluatorEnvironment \<times> bool)
   + (EvaluatorEnvironment \<times> bool \<times> Token list \<times> (string \<times> Token) list)" where
  "pointerify_variable m v st =
     (case st of (environment, wcm, initializerNames, modulesToImport) \<Rightarrow>
        (case variable_indices m (expanded_definition v) of
           None \<Rightarrow> Inl (HookReturned False, environment, wcm)
         | Some (varNameIndex, typeIndex) \<Rightarrow>
             (case (at_index (expanded_definition v) 1,
                    at_index (expanded_definition v) varNameIndex,
                    at_index (expanded_definition v) typeIndex) of
                (Some varInvocation, Some varName, Some typeStart) \<Rightarrow>
                  (let newVarTokens =
                         new_var_tokens m (expanded_definition v) varNameIndex typeIndex;
                       environment1 =
                         environment\<lparr>comptimeTokens :=
                           comptimeTokens environment @ [newVarTokens]\<rparr>
                   in case (init_function_name m varName, modify_definition.module v) of
                        (Some initFunctionName, Some p) \<Rightarrow>
                          (case module_filename environment1 p of
                             None \<Rightarrow> Inl (HookFault, environment1, wcm)
                           | Some moduleFilename \<Rightarrow>
                               pointerify_replace m (expanded_definition v) varNameIndex
                                 typeIndex varName initFunctionName p moduleFilename
                                 newVarTokens
                                 (environment1, wcm, initializerNames, modulesToImport))
                      | _ \<Rightarrow> Inl (HookFault, environment1, wcm))
              | _ \<Rightarrow> Inl (HookFault, environment, wcm))))"

fun pointerify_variables ::
  "Machinery \<Rightarrow> modify_definition list \<Rightarrow>
   EvaluatorEnvironment \<times> bool \<times> Token list \<times> (string \<times> Token) list \<Rightarrow>
   (HookOutcome \<times> EvaluatorEnvironment \<times> bool)
   + (EvaluatorEnvironment \<times> bool \<times> Token list \<times> (string \<times> Token) list)" where
  "pointerify_variables m [] st = Inr st"
| "pointerify_variables m (v # vs) st =
     (case pointerify_variable m v st of
        Inl stop \<Rightarrow> Inl stop
      | Inr st' \<Rightarrow> pointerify_variables m vs st')"

subsection \<open>Lines 261 to 294: dereferences in the functions\<close>

text \<open>
  The new definition of a function: every symbol that names a modified variable becomes
  \<^verbatim>\<open>(deref symbol)\<close>. \<open>None\<close> is the read beyond the end of a vector in the inner loop.
\<close>

fun auto_deref_tokens :: "Token list \<Rightarrow> modify_definition list \<Rightarrow> Token list option" where
  "auto_deref_tokens [] vars = Some []"
| "auto_deref_tokens (t # ts) vars =
     (if Token.type t \<noteq> TokenType_Symbol then map_option (\<lambda>r. t # r) (auto_deref_tokens ts vars)
      else (case is_modified_variable t vars of
              None \<Rightarrow> None
            | Some False \<Rightarrow> map_option (\<lambda>r. t # r) (auto_deref_tokens ts vars)
            | Some True \<Rightarrow>
                map_option (\<lambda>r. [openParen, sym ''deref'', t, closeParen] @ r)
                  (auto_deref_tokens ts vars)))"

fun deref_references ::
  "Machinery \<Rightarrow> modify_definition list \<Rightarrow> modify_definition list \<Rightarrow>
   EvaluatorEnvironment \<times> bool \<Rightarrow>
   (HookOutcome \<times> EvaluatorEnvironment \<times> bool) + (EvaluatorEnvironment \<times> bool)" where
  "deref_references m vars [] st = Inr st"
| "deref_references m vars (d # ds) (environment, wcm) =
     (case auto_deref_tokens (expanded_definition d) vars of
        None \<Rightarrow> Inl (HookFault, environment, wcm)
      | Some newDefinition \<Rightarrow>
          (case mach_ReplaceAndEvaluateDefinition m
                  (environment\<lparr>comptimeTokens := comptimeTokens environment @ [newDefinition]\<rparr>)
                  (modify_definition.name d) newDefinition of
             (replaced, environment') \<Rightarrow>
               if \<not> replaced then Inl (HookReturned False, environment', wcm)
               else deref_references m vars ds (environment', True)))"

subsection \<open>Lines 296 to 331: the initializer of all the pointers\<close>

definition new_initializer_def :: "Token list \<Rightarrow> (string \<times> Token) list \<Rightarrow> Token list" where
  "new_initializer_def initializerNames modulesToImport =
     (let invocations =
            concat (map (\<lambda>initializerName. [openParen, initializerName, closeParen])
                      initializerNames);
          imports =
            concat (map (\<lambda>(first, second).
                           [openParen, sym ''import'',
                            second\<lparr>Token.type := TokenType_String, contents := first\<rparr>,
                            closeParen])
                      modulesToImport)
      in [openParen, sym ''add-c-search-directory'', sym ''module'',
          pushedToken TokenType_String ''.'', closeParen]
         @ imports
         @ [openParen, sym ''defun'', sym ''hot-reload-initialize-state'', openParen, closeParen]
         @ invocations @ [closeParen])"

definition global_initializer ::
  "Machinery \<Rightarrow> Token list \<Rightarrow> (string \<times> Token) list \<Rightarrow> EvaluatorEnvironment \<Rightarrow> bool \<Rightarrow>
   HookOutcome \<times> EvaluatorEnvironment \<times> bool" where
  "global_initializer m initializerNames modulesToImport environment wcm =
     (let newInitializerDef = new_initializer_def initializerNames modulesToImport
      in case mach_ReplaceAndEvaluateDefinition m
                (environment\<lparr>comptimeTokens := comptimeTokens environment @ [newInitializerDef]\<rparr>)
                ''hot-reload-initialize-state'' newInitializerDef of
           (replaced, environment') \<Rightarrow>
             if \<not> replaced then (HookReturned False, environment', wcm)
             else (HookReturned True, environment', True))"

subsection \<open>The hook\<close>

text \<open>Lines 63 to 331, what the hook does when it has not run before.\<close>

definition modify_code ::
  "Machinery \<Rightarrow> EvaluatorEnvironment \<Rightarrow> bool \<Rightarrow> HookOutcome \<times> EvaluatorEnvironment \<times> bool" where
  "modify_code m environment wcm =
     (case get_or_create_comptime_var environment ''modules-with-import''
             (CompileTimeStringIntMap []) of
        None \<Rightarrow> (HookReturned False, environment, wcm)
      | Some (environment1, withImport) \<Rightarrow>
          (case collect_variables m (definitions environment1) [] of
             None \<Rightarrow> (HookReturned False, environment1, wcm)
           | Some variablesToModify \<Rightarrow>
               (case collect_references m variablesToModify (definitions environment1) [] of
                  Inl stop \<Rightarrow> (stop, environment1, wcm)
                | Inr referencesToModify \<Rightarrow>
                    (case pointerify_variables m variablesToModify
                            (environment1, wcm, [], []) of
                       Inl stop \<Rightarrow> stop
                     | Inr (environment2, wcm2, initializerNames, modulesToImport) \<Rightarrow>
                         (case deref_references m variablesToModify referencesToModify
                                 (environment2, wcm2) of
                            Inl stop \<Rightarrow> stop
                          | Inr (environment3, wcm3) \<Rightarrow>
                              global_initializer m initializerNames modulesToImport
                                environment3 wcm3)))))"

text \<open>
  Lines 53 to 61:
  \<^verbatim>\<open>
  (get-or-create-comptime-var modified-vars bool false)
  (when (deref modified-vars) ;; Modify variables only once
    (return true))
  (set (deref modified-vars) true)
  \<close>
  The arguments are the environment and \<^verbatim>\<open>was-code-modified\<close>, both passed by reference;
  the result is what the hook ends with and the two as it leaves them. The two \<^verbatim>\<open>printf\<close>
  lines and the printing under \<^verbatim>\<open>verbose\<close> (which is false) are not part of this state.
\<close>

definition make_code_hot_reloadable ::
  "Machinery \<Rightarrow> EvaluatorEnvironment \<Rightarrow> bool \<Rightarrow> HookOutcome \<times> EvaluatorEnvironment \<times> bool" where
  "make_code_hot_reloadable m environment wcm =
     (case get_or_create_comptime_var environment ''modified-vars'' (CompileTimeBool False) of
        None \<Rightarrow> (HookReturned False, environment, wcm)
      | Some (environment1, modifiedVars) \<Rightarrow>
          if modifiedVars = CompileTimeBool True then (HookReturned True, environment1, wcm)
          else modify_code m
                 (set_comptime_var environment1 ''modified-vars'' (CompileTimeBool True)) wcm)"

section \<open>Example environments\<close>

text \<open>Small environments on which the theorems below are run.\<close>

definition symbolToken :: "string \<Rightarrow> Token" where
  "symbolToken nm =
     \<lparr>Token.type = TokenType_Symbol, contents = nm, Token.source = ''test.cake'',
      lineNumber = 1, columnStart = 0, columnEnd = int (length nm)\<rparr>"

definition exampleContext :: "string \<Rightarrow> bool \<Rightarrow> EvaluatorContext" where
  "exampleContext nm required =
     \<lparr>scope = EvaluatorScope_Body, module = None, definitionName = Some (symbolToken nm),
      EvaluatorContext.isRequired = required\<rparr>"

definition exampleDefinition :: "string \<Rightarrow> ObjectType \<Rightarrow> bool \<Rightarrow> ObjectDefinition" where
  "exampleDefinition nm ty required =
     \<lparr>name = symbolToken nm, ObjectDefinition.type = ty,
      ObjectDefinition.isRequired = required, output = None,
      ObjectDefinition.context = exampleContext nm required, buildState = NotBuilt\<rparr>"

definition exampleReference :: "string \<Rightarrow> string \<Rightarrow> bool \<Rightarrow> ObjectReference" where
  "exampleReference fromName toName required =
     \<lparr>referrer = fromName, token = symbolToken toName,
      ObjectReference.context = exampleContext fromName required,
      ObjectReference.tokens = [symbolToken toName], startIndex = 0\<rparr>"

definition exampleSatisfiable :: EvaluatorEnvironment where
  "exampleSatisfiable =
     emptyEnvironment
       \<lparr>definitions := [(''main'', exampleDefinition ''main'' ObjectType_Function True),
                        (''helper'', exampleDefinition ''helper'' ObjectType_Function False)],
        references := [(''helper'', [exampleReference ''main'' ''helper'' True])]\<rparr>"

definition exampleUnsatisfiable :: EvaluatorEnvironment where
  "exampleUnsatisfiable =
     emptyEnvironment
       \<lparr>definitions := [(''main'', exampleDefinition ''main'' ObjectType_Function True),
                        (''helper'', exampleDefinition ''helper'' ObjectType_Function False)],
        references := [(''foo'', [exampleReference ''main'' ''foo'' True]),
                       (''helper'', [exampleReference ''main'' ''helper'' True]),
                       (''bar'', [exampleReference ''helper'' ''bar'' False])]\<rparr>"

definition exampleExternals :: Externals where
  "exampleExternals =
     \<lparr>ext_tokenizeLine = (\<lambda>line fname lineNo toks. (None, toks @ [symbolToken line])),
      ext_validateParentheses = (\<lambda>toks. True),
      ext_fundamentalGenerators = [(''defun'', FuncPtr ''DefunGenerator'')],
      ext_EvaluateGenerateAll_Recursive = (\<lambda>environment ctx toks start delimiter out. (0, environment, out)),
      ext_EvaluateResolveReferences = (\<lambda>environment out. (True, environment, out)),
      ext_writeGeneratorOutput = (\<lambda>out settings. True),
      ext_generatedSourceHeading = None,
      ext_generatedSourceFooter = None,
      ext_generatedHeaderHeading = None,
      ext_generatedHeaderFooter = None,
      ext_zeroScope = EvaluatorScope_Module\<rparr>"


text \<open>
  A reference to \<^verbatim>\<open>helper\<close> as an evaluator records it: under the context the evaluator was
  called with.
\<close>

definition exampleTopLevelReference ::
  "EvaluatorContext \<Rightarrow> Token list \<Rightarrow> int \<Rightarrow> ObjectReference" where
  "exampleTopLevelReference ctx toks start =
     \<lparr>referrer = ''<module>'', token = symbolToken ''helper'',
      ObjectReference.context = ctx, ObjectReference.tokens = toks, startIndex = nat start\<rparr>"

text \<open>
  An evaluator that defines \<^verbatim>\<open>helper\<close>, not required, and records one reference to it under
  the context it is called with; externals with this evaluator and with the resolver of
  the specification; the environment this evaluator returns to \<^verbatim>\<open>main\<close> for the file
  \<^verbatim>\<open>test.cake\<close> with the one line \<^verbatim>\<open>(helper)\<close>.
\<close>

definition exampleRecordingEvaluator ::
  "EvaluatorEnvironment \<Rightarrow> EvaluatorContext \<Rightarrow> Token list \<Rightarrow> int \<Rightarrow> StringOutput \<Rightarrow>
   GeneratorOutput \<Rightarrow> int \<times> EvaluatorEnvironment \<times> GeneratorOutput" where
  "exampleRecordingEvaluator environment ctx toks start delimiter out =
     (0,
      addReference
        (snd (addObjectDefinition environment
                (exampleDefinition ''helper'' ObjectType_Function False)))
        ''helper'' (exampleTopLevelReference ctx toks start),
      out)"

definition exampleResolvingExternals :: Externals where
  "exampleResolvingExternals =
     exampleExternals
       \<lparr>ext_EvaluateGenerateAll_Recursive := exampleRecordingEvaluator,
        ext_EvaluateResolveReferences :=
          (\<lambda>environment out.
             case EvaluateResolveReferences (\<lambda>d. True) environment of
               (ok, environment', errors) \<Rightarrow> (ok, environment', out))\<rparr>"

definition exampleEvaluated :: EvaluatorEnvironment where
  "exampleEvaluated =
     fst (snd (exampleRecordingEvaluator (main_environment exampleResolvingExternals ''test.cake'')
                 (moduleContext ''test.cake'') [symbolToken ''(helper)''] 0
                 bodyDelimiterTemplate emptyGeneratorOutput))"

text \<open>An evaluator that differs from this one away from the module context.\<close>

definition exampleOtherEvaluator ::
  "EvaluatorEnvironment \<Rightarrow> EvaluatorContext \<Rightarrow> Token list \<Rightarrow> int \<Rightarrow> StringOutput \<Rightarrow>
   GeneratorOutput \<Rightarrow> int \<times> EvaluatorEnvironment \<times> GeneratorOutput" where
  "exampleOtherEvaluator environment ctx toks start delimiter out =
     (if ctx = moduleContext ''test.cake''
      then exampleRecordingEvaluator environment ctx toks start delimiter out
      else (1, emptyEnvironment, out))"

definition exampleMachinery :: Machinery where
  "exampleMachinery =
     \<lparr>mach_CreateDefinitionCopyMacroExpanded =
        (\<lambda>d. if ObjectDefinition.type d = ObjectType_Variable
              then Some [openParen, sym ''var'', ObjectDefinition.name d, sym ''int'', sym ''0'',
                         closeParen]
              else Some [openParen, sym ''defun'', ObjectDefinition.name d, openParen, closeParen,
                         openParen, sym ''set'', sym ''counter'', sym ''1'', closeParen,
                         closeParen]),
      mach_getExpectedArgument =
        (\<lambda>message toks start n endIndex. if start + 1 + n < endIndex then start + 1 + n else - 1),
      mach_getArgument =
        (\<lambda>toks start n endIndex. if start + 1 + n < endIndex then start + 1 + n else - 1),
      mach_tokenExpression = (\<lambda>toks i. [toks ! nat i]),
      mach_lispNameStyleToCNameStyle = (\<lambda>text. text),
      mach_ReplaceAndEvaluateDefinition =
        (\<lambda>environment nm toks. (isDefined environment nm, environment)),
      mach_EvaluateGenerate_Recursive = (\<lambda>environment ctx toks start out. (0, environment, out))\<rparr>"

definition exampleModuleDefinition :: "string \<Rightarrow> ObjectType \<Rightarrow> ObjectDefinition" where
  "exampleModuleDefinition nm ty =
     (exampleDefinition nm ty True)
       \<lparr>ObjectDefinition.context :=
          (exampleContext nm True)\<lparr>EvaluatorContext.module := Some 0\<rparr>\<rparr>"

definition exampleProgram :: EvaluatorEnvironment where
  "exampleProgram =
     emptyEnvironment
       \<lparr>definitions :=
          [(''counter'', exampleModuleDefinition ''counter'' ObjectType_Variable),
           (''tick'', exampleModuleDefinition ''tick'' ObjectType_Function),
           (''hot-reload-initialize-state'',
            exampleModuleDefinition ''hot-reload-initialize-state'' ObjectType_Function)],
        moduleManager :=
          Some \<lparr>globalPseudoInvocationName = symbolToken ''<global>'',
                modules = [\<lparr>filename = ''test.cake'', Module.tokens = [],
                            generatedOutput = emptyGeneratorOutput, skipBuild = False\<rparr>]\<rparr>\<rparr>"

definition exampleModified :: EvaluatorEnvironment where
  "exampleModified =
     exampleProgram\<lparr>compileTimeVariables := [''modified-vars'' \<mapsto> CompileTimeBool True]\<rparr>"

text \<open>
  A path of 1008 characters that a file system accepts: three directories with names of
  251 characters and a file name of 252 characters.
\<close>

definition exampleLongPath :: string where
  "exampleLongPath =
     replicate 251 CHR ''a'' @ ''/'' @ replicate 251 CHR ''a'' @ ''/'' @
     replicate 251 CHR ''a'' @ ''/'' @ replicate 247 CHR ''a'' @ ''.cake''"

section \<open>Properties of Utilities.hpp\<close>

lemma snprintf_returns_length:
  "snd (snprintf buffer bufsize formatted) = int (length formatted)"
  by (simp add: snprintf_def Let_def)

lemma snprintf_keeps_capacity:
  "bufsize \<le> length buffer \<Longrightarrow> length (fst (snprintf buffer bufsize formatted)) = length buffer"
  by (auto simp: snprintf_def Let_def min_def)

lemma PrintfBuffer_in_bounds_iff:
  "(\<exists>b. PrintfBuffer buffer formatted = Inr b) \<longleftrightarrow> length formatted < length buffer"
proof -
  obtain b' n where s: "snprintf buffer (length buffer) formatted = (b', n)"
    by (cases "snprintf buffer (length buffer) formatted")
  have n: "n = int (length formatted)"
    using snprintf_returns_length [of buffer "length buffer" formatted] s by simp
  have b': "length b' = length buffer"
    using snprintf_keeps_capacity [of "length buffer" buffer formatted] s by simp
  show ?thesis
    by (simp add: PrintfBuffer_def SafeSnprinf_def s n b')
qed


text \<open>
  Claim C10. For every call of SafeSnprinf (and so of PrintfBuffer and PrintBuffer), the
  index at which the macro stores the terminating NUL, which is the value snprintf
  returned, is below the buffer size, also when the output was truncated. The code does
  not do this: snprintf returns the length of the whole formatted text, so as soon as the
  text does not fit (its length is at least the buffer size) the store is at or beyond the
  end of the array. \<open>PrintfBuffer_in_bounds_iff\<close> above says exactly when the store is
  inside; the theorem below runs the call of \<^verbatim>\<open>main\<close> on a file name of 1008 characters,
  where the formatted heading has 1024 characters and the store goes to index 1024 of a
  1024-byte array, then the macro on an 8-byte buffer, then the whole of \<^verbatim>\<open>main\<close> on an
  empty file whose path has 1008 characters (three directories and a file name, each
  component shorter than 256 characters), and the heading for that path.
\<close>

theorem main_sourceHeading_out_of_bounds:
  "main_sourceHeading (replicate 1008 CHR ''a'') [] = Inl (OutOfBoundsWrite 1024)
   \<and> PrintfBuffer (replicate 8 NUL) ''12345678'' = Inl (OutOfBoundsWrite 8)
   \<and> outcome (main exampleExternals [''cakelisp'', exampleLongPath] [exampleLongPath \<mapsto> []])
       = UndefinedBehaviour (OutOfBoundsWrite 1024)
   \<and> main_sourceHeading exampleLongPath [] = Inl (OutOfBoundsWrite 1024)
   \<and> length exampleLongPath = 1008"
proof -
  have l: "length exampleLongPath = 1008"
    by (simp add: exampleLongPath_def)
  have h: "main_sourceHeading exampleLongPath [] = Inl (OutOfBoundsWrite 1024)"
    by (simp add: main_sourceHeading_def PrintfBuffer_def SafeSnprinf_def snprintf_def
        sourceHeading_format_def l)
  have a: "main_sourceHeading (replicate 1008 CHR ''a'') [] = Inl (OutOfBoundsWrite 1024)"
    by (simp add: main_sourceHeading_def PrintfBuffer_def SafeSnprinf_def snprintf_def
        sourceHeading_format_def)
  have b: "PrintfBuffer (replicate 8 NUL) ''12345678'' = Inl (OutOfBoundsWrite 8)"
    by (simp add: PrintfBuffer_def SafeSnprinf_def snprintf_def)
  have m: "outcome (main exampleExternals [''cakelisp'', exampleLongPath] [exampleLongPath \<mapsto> []])
             = UndefinedBehaviour (OutOfBoundsWrite 1024)"
    by (simp add: main_def Let_def exampleExternals_def main_generate_def main_write_def h
        string_or_empty_def)
  show ?thesis
    using a b m h l by simp
qed

subsection \<open>Decimal text and the matcher\<close>

lemma digit_char_values:
  "digit_char 0 = CHR ''0''" "digit_char 1 = CHR ''1''" "digit_char (Suc 0) = CHR ''1''"
  "digit_char 2 = CHR ''2''"
  "digit_char 3 = CHR ''3''" "digit_char 4 = CHR ''4''" "digit_char 5 = CHR ''5''"
  "digit_char 6 = CHR ''6''" "digit_char 7 = CHR ''7''" "digit_char 8 = CHR ''8''"
  "digit_char 9 = CHR ''9''"
  by code_simp+























text \<open>
  At the last column an \<^verbatim>\<open>int\<close> can hold, the sum wraps around: the column printed is
  negative and the line is not in the format. The bound on the start column in the
  property below is needed.
\<close>

lemma ErrorAtToken_column_overflow:
  "ErrorAtToken \<lparr>Token.type = TokenType_Symbol, contents = ''defun'', source = ''test.cake'',
        lineNumber = 12, columnStart = 2147483647, columnEnd = 2147483647\<rparr> ''Unrecognized form''
     = ''test.cake:12:-2147483648: error: Unrecognized form'' @ [newline]
   \<and> match_diagnostic
     (ErrorAtToken \<lparr>Token.type = TokenType_Symbol, contents = ''defun'', source = ''test.cake'',
        lineNumber = 12, columnStart = 2147483647, columnEnd = 2147483647\<rparr> ''Unrecognized form'')
     = None"
  by (simp add: match_diagnostic_def ErrorAtToken_def int_add_def printf_d_def
      dec_digits.simps digit_char_values not_colon_def is_digit_def Let_def)






section \<open>Properties of the reference resolver\<close>

subsection \<open>Association lists\<close>

lemma map_of_map_keyed:
  "map_of (map (\<lambda>(k, x). if k = nm then (k, f x) else (k, x)) xs) k' =
     (if k' = nm then map_option f (map_of xs k') else map_of xs k')"
  by (induction xs) auto

lemma map_fst_map_keyed:
  "map fst (map (\<lambda>(k, x). if k = nm then (k, f x) else (k, x)) xs) = map fst xs"
  by (induction xs) auto

lemma map_of_filter_other:
  "k' \<noteq> nm \<Longrightarrow> map_of (filter (\<lambda>(k, rs). k \<noteq> nm) xs) k' = map_of xs k'"
  by (induction xs) auto

lemma referenceTokens_filter:
  "referenceTokens (filter (\<lambda>(k, rs). P k) xs) = filter (\<lambda>(k, ts). P k) (referenceTokens xs)"
  by (induction xs) (auto simp: referenceTokens_def)

lemma token_inheritRequired: "ObjectReference.token (inheritRequired nm r) = ObjectReference.token r"
  by (simp add: inheritRequired_def)

lemma referenceTokens_requireOutgoingReferences:
  "referenceTokens (requireOutgoingReferences nm table) = referenceTokens table"
  by (induction table)
     (auto simp: requireOutgoingReferences_def referenceTokens_def token_inheritRequired)

lemma in_fst_image: "(a, b) \<in> set xs \<Longrightarrow> a \<in> fst ` set xs"
  by force

lemma map_fst_referenceTokens: "map fst (referenceTokens table) = map fst table"
  by (induction table) (auto simp: referenceTokens_def)

lemma referenceTokens_Nil: "referenceTokens table = [] \<longleftrightarrow> table = []"
  by (simp add: referenceTokens_def)

lemma inheritRequired_keeps:
  "referenceIsRequired r \<Longrightarrow> referenceIsRequired (inheritRequired nm r)"
  by (simp add: inheritRequired_def referenceIsRequired_def)

lemma list_ex_inheritRequired:
  "list_ex referenceIsRequired rs \<Longrightarrow> list_ex referenceIsRequired (map (inheritRequired nm) rs)"
  by (induction rs) (auto simp: inheritRequired_keeps)

lemma map_of_requireOutgoingReferences:
  "map_of (requireOutgoingReferences nm table) k =
     map_option (map (inheritRequired nm)) (map_of table k)"
  by (induction table) (auto simp: requireOutgoingReferences_def)

subsection \<open>What a round does to the tables\<close>

lemma resolveReferencesTo_Some:
  assumes "resolveReferencesTo nm e = Some e'"
  shows "isDefined e nm"
    and "nm \<in> set (map fst (references e))"
    and "map fst (definitions e') = map fst (definitions e)"
    and "referenceTokens (references e') =
           filter (\<lambda>(k, ts). k \<noteq> nm) (referenceTokens (references e))"
proof -
  obtain refs d where r: "map_of (references e) nm = Some refs"
    and d: "findObjectDefinition e nm = Some d"
    using assms by (auto simp: resolveReferencesTo_def split: option.splits)
  show "isDefined e nm" using d by (simp add: isDefined_def)
  show "nm \<in> set (map fst (references e))"
    using r by (metis map_of_eq_None_iff option.distinct(1) set_map)
  show "map fst (definitions e') = map fst (definitions e)"
    using assms r d by (auto simp: resolveReferencesTo_def Let_def map_fst_map_keyed)
  show "referenceTokens (references e') =
           filter (\<lambda>(k, ts). k \<noteq> nm) (referenceTokens (references e))"
    using assms r d
    by (auto simp: resolveReferencesTo_def Let_def referenceTokens_requireOutgoingReferences
        referenceTokens_filter)
qed

lemma resolveReferencesTo_None:
  assumes "resolveReferencesTo nm e = None"
  shows "\<not> isDefined e nm \<or> nm \<notin> set (map fst (references e))"
proof -
  have "map_of (references e) nm = None \<or> findObjectDefinition e nm = None"
    using assms by (auto simp: resolveReferencesTo_def Let_def split: option.splits)
  then show ?thesis
    by (auto simp: isDefined_def map_of_eq_None_iff)
qed

lemma isDefined_keys:
  "map fst (definitions e') = map fst (definitions e) \<Longrightarrow> isDefined e' = isDefined e"
  by (auto simp: isDefined_def findObjectDefinition_def map_of_eq_None_iff fun_eq_iff
      simp flip: set_map)

lemma resolveReferencesPass_keys:
  "resolveReferencesPass ks e p = (e', p') \<Longrightarrow>
     map fst (definitions e') = map fst (definitions e)
     \<and> referenceTokens (references e') =
         filter (\<lambda>(k, ts). \<not> (k \<in> set ks \<and> isDefined e k)) (referenceTokens (references e))"
proof (induction ks arbitrary: e p)
  case Nil
  then show ?case by simp
next
  case (Cons nm ks)
  show ?case
  proof (cases "resolveReferencesTo nm e")
    case None
    with Cons.prems have "resolveReferencesPass ks e p = (e', p')" by simp
    from Cons.IH [OF this] resolveReferencesTo_None [OF None]
    show ?thesis
      by (auto intro!: filter_cong simp flip: map_fst_referenceTokens dest: in_fst_image)
  next
    case (Some e1)
    with Cons.prems have "resolveReferencesPass ks e1 True = (e', p')" by simp
    note ih = Cons.IH [OF this]
    note s = resolveReferencesTo_Some [OF Some]
    have d: "isDefined e1 = isDefined e" using s(3) by (rule isDefined_keys)
    show ?thesis
      using ih s(1) by (auto simp: s(3) s(4) d intro!: filter_cong)
  qed
qed

lemma buildRequiredDefinitions_keys:
  "buildRequiredDefinitions build defs = (defs', p, errs) \<Longrightarrow>
     map fst defs' = map fst defs \<and> unknownSymbolsReported errs = []"
proof (induction defs arbitrary: defs' p errs)
  case Nil
  then show ?case by simp
next
  case (Cons kd defs)
  obtain k d where kd: "kd = (k, d)" by (cases kd)
  obtain r q es where rec: "buildRequiredDefinitions build defs = (r, q, es)"
    by (cases "buildRequiredDefinitions build defs")
  from Cons.IH [OF rec] Cons.prems show ?case
    unfolding kd by (auto simp: rec split: if_splits)
qed

lemma resolveRound_keys:
  assumes "resolveRound build e = (e', p, errs)"
  shows "map fst (definitions e') = map fst (definitions e)"
    and "referenceTokens (references e') =
           filter (\<lambda>(k, ts). \<not> isDefined e k) (referenceTokens (references e))"
    and "unknownSymbolsReported errs = []"
proof -
  obtain e1 p1 where pass: "resolveReferencesPass (map fst (references e)) e False = (e1, p1)"
    by (cases "resolveReferencesPass (map fst (references e)) e False")
  obtain d2 p2 es where b: "buildRequiredDefinitions build (definitions e1) = (d2, p2, es)"
    by (cases "buildRequiredDefinitions build (definitions e1)")
  from assms pass b have e': "e' = e1\<lparr>definitions := d2\<rparr>" and es: "errs = es"
    by (auto simp: resolveRound_def)
  note k1 = resolveReferencesPass_keys [OF pass]
  note k2 = buildRequiredDefinitions_keys [OF b]
  show "map fst (definitions e') = map fst (definitions e)" using k1 k2 by (simp add: e')
  show "referenceTokens (references e') =
           filter (\<lambda>(k, ts). \<not> isDefined e k) (referenceTokens (references e))"
    using k1
    by (auto simp: e' intro!: filter_cong simp flip: map_fst_referenceTokens dest: in_fst_image)
  show "unknownSymbolsReported errs = []" using k2 es by simp
qed

lemma unknownSymbolsReported_append:
  "unknownSymbolsReported (xs @ ys) = unknownSymbolsReported xs @ unknownSymbolsReported ys"
  by (induction xs rule: unknownSymbolsReported.induct) auto

lemma resolveLoop_keys:
  "resolveLoop build e errs = (e', errs') \<Longrightarrow>
     map fst (definitions e') = map fst (definitions e)
     \<and> referenceTokens (references e') =
         filter (\<lambda>(k, ts). \<not> isDefined e k) (referenceTokens (references e))
     \<and> unknownSymbolsReported errs' = unknownSymbolsReported errs"
proof (induction build e errs rule: resolveLoop.induct)
  case (1 build e errs)
  obtain e1 p es where r: "resolveRound build e = (e1, p, es)"
    by (cases "resolveRound build e")
  note k = resolveRound_keys [OF r]
  have d: "isDefined e1 = isDefined e" using k(1) by (rule isDefined_keys)
  show ?case
  proof (cases p)
    case True
    with "1.prems" r have "resolveLoop build e1 (errs @ es) = (e', errs')"
      by (subst (asm) resolveLoop.simps) simp
    from "1.IH" [OF r [symmetric] refl True this]
    show ?thesis by (simp add: k d unknownSymbolsReported_append)
  next
    case False
    with "1.prems" r have "e' = e1" "errs' = errs @ es"
      by (subst (asm) resolveLoop.simps, simp)+
    then show ?thesis by (simp add: k unknownSymbolsReported_append)
  qed
qed



lemma resolveReferencesTo_keeps_required:
  assumes s: "resolveReferencesTo nm e = Some e'" and h: "hasRequiredUnsatisfied e"
  shows "hasRequiredUnsatisfied e'"
proof -
  from h obtain k rs where m: "(k, rs) \<in> set (references e)" and u: "\<not> isDefined e k"
    and q: "list_ex referenceIsRequired rs"
    by (auto simp: hasRequiredUnsatisfied_def list_ex_iff)
  note f = resolveReferencesTo_Some [OF s]
  have ne: "k \<noteq> nm" using u f(1) by auto
  have d: "isDefined e' = isDefined e" using f(3) by (rule isDefined_keys)
  let ?kept = "filter (\<lambda>(k, rs). k \<noteq> nm) (references e)"
  have kept: "(k, rs) \<in> set ?kept" using m ne by simp
  have "references e' = ?kept \<or> references e' = requireOutgoingReferences nm ?kept"
    using s by (auto simp: resolveReferencesTo_def Let_def split: option.splits if_splits)
  then have "\<exists>rs'. (k, rs') \<in> set (references e') \<and> list_ex referenceIsRequired rs'"
  proof
    assume "references e' = ?kept"
    with kept q show ?thesis by auto
  next
    assume r: "references e' = requireOutgoingReferences nm ?kept"
    have "(k, map (inheritRequired nm) rs) \<in> set (requireOutgoingReferences nm ?kept)"
      using kept by (force simp: requireOutgoingReferences_def)
    with r q show ?thesis by (auto intro: list_ex_inheritRequired)
  qed
  with u show ?thesis
    by (auto simp: hasRequiredUnsatisfied_def list_ex_iff d)
qed

lemma resolveReferencesPass_keeps_required:
  "resolveReferencesPass ks e p = (e', p') \<Longrightarrow> hasRequiredUnsatisfied e \<Longrightarrow>
     hasRequiredUnsatisfied e'"
proof (induction ks arbitrary: e p)
  case Nil
  then show ?case by simp
next
  case (Cons nm ks)
  show ?case
  proof (cases "resolveReferencesTo nm e")
    case None
    with Cons show ?thesis by simp
  next
    case (Some e1)
    with Cons.prems have "resolveReferencesPass ks e1 True = (e', p')" by simp
    from Cons.IH [OF this resolveReferencesTo_keeps_required [OF Some Cons.prems(2)]]
    show ?thesis .
  qed
qed

lemma resolveRound_keeps_required:
  assumes "resolveRound build e = (e', p, errs)" and "hasRequiredUnsatisfied e"
  shows "hasRequiredUnsatisfied e'"
proof -
  obtain e1 p1 where pass: "resolveReferencesPass (map fst (references e)) e False = (e1, p1)"
    by (cases "resolveReferencesPass (map fst (references e)) e False")
  obtain d2 p2 es where b: "buildRequiredDefinitions build (definitions e1) = (d2, p2, es)"
    by (cases "buildRequiredDefinitions build (definitions e1)")
  from assms pass b have e': "e' = e1\<lparr>definitions := d2\<rparr>"
    by (auto simp: resolveRound_def)
  have h1: "hasRequiredUnsatisfied e1"
    by (rule resolveReferencesPass_keeps_required [OF pass assms(2)])
  have "map fst (definitions e') = map fst (definitions e1)"
    using buildRequiredDefinitions_keys [OF b] by (simp add: e')
  then have "isDefined e' = isDefined e1" by (rule isDefined_keys)
  with h1 show ?thesis by (simp add: hasRequiredUnsatisfied_def e')
qed

lemma resolveLoop_keeps_required:
  "resolveLoop build e errs = (e', errs') \<Longrightarrow> hasRequiredUnsatisfied e \<Longrightarrow>
     hasRequiredUnsatisfied e'"
proof (induction build e errs rule: resolveLoop.induct)
  case (1 build e errs)
  obtain e1 p es where r: "resolveRound build e = (e1, p, es)"
    by (cases "resolveRound build e")
  note h1 = resolveRound_keeps_required [OF r "1.prems"(2)]
  show ?case
  proof (cases p)
    case True
    with "1.prems" r have "resolveLoop build e1 (errs @ es) = (e', errs')"
      by (subst (asm) resolveLoop.simps) simp
    from "1.IH" [OF r [symmetric] refl True this h1] show ?thesis .
  next
    case False
    with "1.prems" r have "e' = e1"
      by (subst (asm) resolveLoop.simps) simp
    with h1 show ?thesis by simp
  qed
qed

lemma unknownSymbolsReported_missing:
  "unknownSymbolsReported
     (map (\<lambda>(k, rs). UnknownSymbolError k (map ObjectReference.token rs)) table) =
   referenceTokens table"
  by (induction table) (auto simp: referenceTokens_def)


text \<open>
  Claim C1. EvaluateResolveReferences is a total function: its loop was shown to end above.
  When it has ended, the entries left in \<^verbatim>\<open>references\<close> are exactly the entries of the
  names that have no definition, each with all the tokens that referred to it, so no
  unresolved reference is dropped. If every pending name has a definition, \<^verbatim>\<open>references\<close>
  is empty and no UnknownSymbolError is reported. If some name without a definition has a
  required reference, the resolver fails and the UnknownSymbolErrors it reports are exactly
  the unsatisfied names with their referring tokens.
\<close>

theorem EvaluateResolveReferences_fixed_point:
  "(case EvaluateResolveReferences build environment of
      (ok, environment', errors) \<Rightarrow>
        referenceTokens (references environment') = unsatisfiedReferences environment
        \<and> ((\<forall>k \<in> set (map fst (references environment)). isDefined environment k) \<longrightarrow>
             references environment' = [] \<and> unknownSymbolsReported errors = [])
        \<and> (hasRequiredUnsatisfied environment \<longrightarrow>
             \<not> ok \<and> unknownSymbolsReported errors = unsatisfiedReferences environment))"
proof -
  obtain e' be where l: "resolveLoop build environment [] = (e', be)"
    by (cases "resolveLoop build environment []")
  note k = resolveLoop_keys [OF l]
  let ?unsat = "unsatisfiedReferences environment"
  have refs: "referenceTokens (references e') = ?unsat"
    using k by (simp add: unsatisfiedReferences_def)
  have be: "unknownSymbolsReported be = []" using k by simp
  have sat: "(\<forall>k \<in> set (map fst (references environment)). isDefined environment k) \<Longrightarrow>
      references e' = [] \<and> unknownSymbolsReported (be @ missingSymbols e') = []"
  proof -
    assume "\<forall>k \<in> set (map fst (references environment)). isDefined environment k"
    then have "?unsat = []"
      by (auto simp: unsatisfiedReferences_def filter_empty_conv referenceTokens_def)
    with refs have "references e' = []" by (simp add: referenceTokens_Nil)
    then show ?thesis by (simp add: missingSymbols_def be unknownSymbolsReported_append)
  qed
  have unsat: "hasRequiredUnsatisfied environment \<Longrightarrow>
      be @ missingSymbols e' \<noteq> [] \<and> unknownSymbolsReported (be @ missingSymbols e') = ?unsat"
  proof -
    assume "hasRequiredUnsatisfied environment"
    from resolveLoop_keeps_required [OF l this] have h: "hasRequiredUnsatisfied e'" .
    then have ex: "list_ex (\<lambda>(k, rs). list_ex referenceIsRequired rs) (references e')"
      and ne: "references e' \<noteq> []"
      by (auto simp: hasRequiredUnsatisfied_def list_ex_iff)
    then have m: "missingSymbols e' =
        map (\<lambda>(k, rs). UnknownSymbolError k (map ObjectReference.token rs)) (references e')"
      by (simp add: missingSymbols_def)
    have "missingSymbols e' \<noteq> []" using ne by (simp add: m)
    moreover have "unknownSymbolsReported (missingSymbols e') = ?unsat"
      by (simp only: m unknownSymbolsReported_missing refs)
    ultimately show ?thesis by (simp add: unknownSymbolsReported_append be)
  qed
  have "EvaluateResolveReferences build environment =
          (be @ missingSymbols e' = [], e', be @ missingSymbols e')"
    by (simp add: EvaluateResolveReferences_def l Let_def)
  then show ?thesis
    using refs sat unsat by simp
qed


theorem EvaluateResolveReferences_fixed_point_witness:
  "references (fst (snd (EvaluateResolveReferences (\<lambda>d. True) exampleSatisfiable))) = []
   \<and> unknownSymbolsReported (snd (snd (EvaluateResolveReferences (\<lambda>d. True) exampleSatisfiable))) = []
   \<and> \<not> fst (EvaluateResolveReferences (\<lambda>d. True) exampleUnsatisfiable)
   \<and> unknownSymbolsReported (snd (snd (EvaluateResolveReferences (\<lambda>d. True) exampleUnsatisfiable)))
       = [(''foo'', [symbolToken ''foo'']), (''bar'', [symbolToken ''bar''])]"
proof -
  have sat: "\<forall>k \<in> set (map fst (references exampleSatisfiable)). isDefined exampleSatisfiable k"
    by (simp add: exampleSatisfiable_def emptyEnvironment_def isDefined_def
        findObjectDefinition_def)
  have unsat: "hasRequiredUnsatisfied exampleUnsatisfiable"
    by (simp add: exampleUnsatisfiable_def emptyEnvironment_def hasRequiredUnsatisfied_def
        isDefined_def findObjectDefinition_def referenceIsRequired_def exampleReference_def
        exampleContext_def)
  have u: "unsatisfiedReferences exampleUnsatisfiable =
           [(''foo'', [symbolToken ''foo'']), (''bar'', [symbolToken ''bar''])]"
    by (simp add: exampleUnsatisfiable_def emptyEnvironment_def unsatisfiedReferences_def
        isDefined_def findObjectDefinition_def referenceTokens_def exampleReference_def)
  obtain ok1 e1 errs1 where
    r1: "EvaluateResolveReferences (\<lambda>d. True) exampleSatisfiable = (ok1, e1, errs1)"
    by (cases "EvaluateResolveReferences (\<lambda>d. True) exampleSatisfiable")
  obtain ok2 e2 errs2 where
    r2: "EvaluateResolveReferences (\<lambda>d. True) exampleUnsatisfiable = (ok2, e2, errs2)"
    by (cases "EvaluateResolveReferences (\<lambda>d. True) exampleUnsatisfiable")
  from EvaluateResolveReferences_fixed_point
         [where build = "\<lambda>d. True" and environment = exampleSatisfiable] sat
  have a: "references e1 = [] \<and> unknownSymbolsReported errs1 = []"
    by (simp add: r1)
  from EvaluateResolveReferences_fixed_point
         [where build = "\<lambda>d. True" and environment = exampleUnsatisfiable] unsat
  have b: "\<not> ok2 \<and> unknownSymbolsReported errs2 = unsatisfiedReferences exampleUnsatisfiable"
    by (simp add: r2)
  show ?thesis using a b by (simp add: r1 r2 u)
qed


section \<open>Required definitions only grow under the resolver\<close>

lemma isRequiredIn_resolveReferencesTo:
  assumes s: "resolveReferencesTo nm e = Some e'"
  shows "isRequiredIn e k \<Longrightarrow> isRequiredIn e' k"
    and "map_of (references e) nm = Some rs \<Longrightarrow> list_ex referenceIsRequired rs \<Longrightarrow>
         isRequiredIn e' nm"
proof -
  obtain refs d where r: "map_of (references e) nm = Some refs"
    and d: "findObjectDefinition e nm = Some d"
    using s by (auto simp: resolveReferencesTo_def split: option.splits)
  let ?f = "\<lambda>x. x\<lparr>ObjectDefinition.isRequired :=
                   ObjectDefinition.isRequired x \<or> list_ex referenceIsRequired refs\<rparr>"
  have defs: "definitions e' =
      map (\<lambda>(k, x). if k = nm then (k, ?f x) else (k, x)) (definitions e)"
    using s r d by (auto simp: resolveReferencesTo_def Let_def)
  have look: "\<And>k. findObjectDefinition e' k =
      (if k = nm then map_option ?f (findObjectDefinition e k) else findObjectDefinition e k)"
    unfolding findObjectDefinition_def defs by (rule map_of_map_keyed)
  show "isRequiredIn e k \<Longrightarrow> isRequiredIn e' k"
    by (auto simp: isRequiredIn_def look split: option.splits)
  show "map_of (references e) nm = Some rs \<Longrightarrow> list_ex referenceIsRequired rs \<Longrightarrow>
         isRequiredIn e' nm"
    using r d by (auto simp: isRequiredIn_def look)
qed

lemma isRequiredIn_resolveReferencesPass:
  "resolveReferencesPass ks e p = (e', p') \<Longrightarrow> isRequiredIn e k \<Longrightarrow> isRequiredIn e' k"
proof (induction ks arbitrary: e p)
  case Nil
  then show ?case by simp
next
  case (Cons nm ks)
  show ?case
  proof (cases "resolveReferencesTo nm e")
    case None
    with Cons show ?thesis by simp
  next
    case (Some e1)
    with Cons.prems have "resolveReferencesPass ks e1 True = (e', p')" by simp
    from Cons.IH [OF this isRequiredIn_resolveReferencesTo(1) [OF Some Cons.prems(2)]]
    show ?thesis .
  qed
qed

lemma buildRequiredDefinitions_isRequired:
  "buildRequiredDefinitions build defs = (defs', p, errs) \<Longrightarrow>
     map_option ObjectDefinition.isRequired (map_of defs' k)
       = map_option ObjectDefinition.isRequired (map_of defs k)"
proof (induction defs arbitrary: defs' p errs)
  case Nil
  then show ?case by simp
next
  case (Cons kd defs)
  obtain k0 d where kd: "kd = (k0, d)" by (cases kd)
  obtain r q es where rec: "buildRequiredDefinitions build defs = (r, q, es)"
    by (cases "buildRequiredDefinitions build defs")
  from Cons.IH [OF rec] Cons.prems show ?case
    unfolding kd by (auto simp: rec split: if_splits)
qed

lemma isRequiredIn_resolveRound:
  assumes "resolveRound build e = (e', p, errs)" and "isRequiredIn e k"
  shows "isRequiredIn e' k"
proof -
  obtain e1 p1 where pass: "resolveReferencesPass (map fst (references e)) e False = (e1, p1)"
    by (cases "resolveReferencesPass (map fst (references e)) e False")
  obtain d2 p2 es where b: "buildRequiredDefinitions build (definitions e1) = (d2, p2, es)"
    by (cases "buildRequiredDefinitions build (definitions e1)")
  from assms pass b have e': "e' = e1\<lparr>definitions := d2\<rparr>"
    by (auto simp: resolveRound_def)
  have 1: "isRequiredIn e1 k" by (rule isRequiredIn_resolveReferencesPass [OF pass assms(2)])
  from buildRequiredDefinitions_isRequired [OF b, of k] 1 show ?thesis
    by (auto simp: isRequiredIn_def findObjectDefinition_def e' split: option.splits)
qed

lemma isRequiredIn_resolveLoop:
  "resolveLoop build e errs = (e', errs') \<Longrightarrow> isRequiredIn e k \<Longrightarrow> isRequiredIn e' k"
proof (induction build e errs rule: resolveLoop.induct)
  case (1 build e errs)
  obtain e1 p es where r: "resolveRound build e = (e1, p, es)"
    by (cases "resolveRound build e")
  note h1 = isRequiredIn_resolveRound [OF r "1.prems"(2)]
  show ?case
  proof (cases p)
    case True
    with "1.prems" r have "resolveLoop build e1 (errs @ es) = (e', errs')"
      by (subst (asm) resolveLoop.simps) simp
    from "1.IH" [OF r [symmetric] refl True this h1] show ?thesis .
  next
    case False
    with "1.prems" r have "e' = e1"
      by (subst (asm) resolveLoop.simps) simp
    with h1 show ?thesis by simp
  qed
qed

lemma isRequiredIn_EvaluateResolveReferences:
  "isRequiredIn e k \<Longrightarrow> isRequiredIn (fst (snd (EvaluateResolveReferences build e))) k"
proof -
  assume a: "isRequiredIn e k"
  obtain e' be where l: "resolveLoop build e [] = (e', be)"
    by (cases "resolveLoop build e []")
  from isRequiredIn_resolveLoop [OF l a] show ?thesis
    by (simp add: EvaluateResolveReferences_def l Let_def)
qed

subsection \<open>A required reference to a defined name marks the definition\<close>

lemma resolveReferencesTo_other_entry:
  assumes s: "resolveReferencesTo k e = Some e'" and ne: "k \<noteq> nm"
    and r: "map_of (references e) nm = Some rs" and q: "list_ex referenceIsRequired rs"
  shows "\<exists>rs'. map_of (references e') nm = Some rs' \<and> list_ex referenceIsRequired rs'"
proof -
  let ?kept = "filter (\<lambda>(k', rs). k' \<noteq> k) (references e)"
  have kept: "map_of ?kept nm = Some rs" using r ne by (simp add: map_of_filter_other)
  have "references e' = ?kept \<or> references e' = requireOutgoingReferences k ?kept"
    using s by (auto simp: resolveReferencesTo_def Let_def split: option.splits if_splits)
  then show ?thesis
  proof
    assume "references e' = ?kept"
    with kept q show ?thesis by simp
  next
    assume "references e' = requireOutgoingReferences k ?kept"
    with kept q show ?thesis
      by (simp add: map_of_requireOutgoingReferences list_ex_inheritRequired)
  qed
qed

lemma resolveReferencesPass_marks:
  "nm \<in> set ks \<Longrightarrow> map_of (references e) nm = Some rs \<Longrightarrow> list_ex referenceIsRequired rs \<Longrightarrow>
   isDefined e nm \<Longrightarrow> resolveReferencesPass ks e p = (e', p') \<Longrightarrow> isRequiredIn e' nm"
proof (induction ks arbitrary: e p rs)
  case Nil
  then show ?case by simp
next
  case (Cons k ks)
  show ?case
  proof (cases "resolveReferencesTo k e")
    case None
    have "k \<noteq> nm"
    proof
      assume "k = nm"
      with None Cons.prems(2,4) show False
        by (auto simp: resolveReferencesTo_def isDefined_def Let_def split: option.splits)
    qed
    with Cons.prems(1) have m: "nm \<in> set ks" by simp
    from None Cons.prems(5) have "resolveReferencesPass ks e p = (e', p')" by simp
    from Cons.IH [OF m Cons.prems(2,3,4) this] show ?thesis .
  next
    case (Some e1)
    with Cons.prems(5) have rest: "resolveReferencesPass ks e1 True = (e', p')" by simp
    show ?thesis
    proof (cases "k = nm")
      case True
      from isRequiredIn_resolveReferencesTo(2) [OF Some [unfolded True] Cons.prems(2,3)]
      have "isRequiredIn e1 nm" .
      from isRequiredIn_resolveReferencesPass [OF rest this] show ?thesis .
    next
      case False
      with Cons.prems(1) have m: "nm \<in> set ks" by simp
      from resolveReferencesTo_other_entry [OF Some False Cons.prems(2,3)]
      obtain rs' where r': "map_of (references e1) nm = Some rs'"
        and q': "list_ex referenceIsRequired rs'" by blast
      have "isDefined e1 = isDefined e"
        using resolveReferencesTo_Some(3) [OF Some] by (rule isDefined_keys)
      with Cons.prems(4) have d': "isDefined e1 nm" by simp
      from Cons.IH [OF m r' q' d' rest] show ?thesis .
    qed
  qed
qed

lemma EvaluateResolveReferences_marks:
  assumes r: "map_of (references e) nm = Some rs" and q: "list_ex referenceIsRequired rs"
    and d: "isDefined e nm"
  shows "isRequiredIn (fst (snd (EvaluateResolveReferences build e))) nm"
proof -
  obtain e' be where l: "resolveLoop build e [] = (e', be)"
    by (cases "resolveLoop build e []")
  obtain e1 p es where rd: "resolveRound build e = (e1, p, es)"
    by (cases "resolveRound build e")
  obtain e0 p0 where pass: "resolveReferencesPass (map fst (references e)) e False = (e0, p0)"
    by (cases "resolveReferencesPass (map fst (references e)) e False")
  obtain d2 p2 es2 where b: "buildRequiredDefinitions build (definitions e0) = (d2, p2, es2)"
    by (cases "buildRequiredDefinitions build (definitions e0)")
  have m: "nm \<in> set (map fst (references e))"
    using r by (metis map_of_eq_None_iff option.distinct(1) set_map)
  have 0: "isRequiredIn e0 nm" by (rule resolveReferencesPass_marks [OF m r q d pass])
  from rd pass b have e1: "e1 = e0\<lparr>definitions := d2\<rparr>" by (auto simp: resolveRound_def)
  from buildRequiredDefinitions_isRequired [OF b, of nm] 0 have 1: "isRequiredIn e1 nm"
    by (auto simp: isRequiredIn_def findObjectDefinition_def e1 split: option.splits)
  have "isRequiredIn e' nm"
  proof (cases p)
    case True
    with l rd have "resolveLoop build e1 ([] @ es) = (e', be)"
      by (subst (asm) resolveLoop.simps) simp
    from isRequiredIn_resolveLoop [OF this 1] show ?thesis .
  next
    case False
    with l rd have "e' = e1" by (subst (asm) resolveLoop.simps) simp
    with 1 show ?thesis by simp
  qed
  then show ?thesis by (simp add: EvaluateResolveReferences_def l Let_def)
qed

lemma addReference_entry:
  "\<exists>rs. map_of (references (addReference e nm r)) nm = Some (rs @ [r])"
proof (cases "map_of (references e) nm")
  case None
  then have "map_of (references (addReference e nm r)) nm = Some ([] @ [r])"
    by (simp add: addReference_def map_add_def)
  then show ?thesis by blast
next
  case (Some refs)
  have "map_of (map (\<lambda>(k, rs). if k = nm then (k, rs @ [r]) else (k, rs)) (references e)) nm
        = map_option (\<lambda>rs. rs @ [r]) (map_of (references e) nm)"
    using map_of_map_keyed [of nm "\<lambda>rs. rs @ [r]" "references e" nm] by simp
  with Some show ?thesis by (auto simp: addReference_def)
qed

lemma addReference_definitions: "definitions (addReference e nm r) = definitions e"
  by (auto simp: addReference_def split: option.splits)

lemma top_level_reference_required:
  assumes "ObjectReference.context r = moduleContext fname" and "isDefined e nm"
  shows "isRequiredIn (fst (snd (EvaluateResolveReferences build (addReference e nm r)))) nm"
proof -
  obtain rs where rs: "map_of (references (addReference e nm r)) nm = Some (rs @ [r])"
    using addReference_entry by blast
  have q: "list_ex referenceIsRequired (rs @ [r])"
    using assms(1) by (simp add: referenceIsRequired_def moduleContext_def)
  have d: "isDefined (addReference e nm r) nm"
    using assms(2) by (simp add: isDefined_def findObjectDefinition_def addReference_definitions)
  show ?thesis by (rule EvaluateResolveReferences_marks [OF rs q d])
qed


section \<open>Properties of main\<close>

lemma main_environment_module:
  "findObjectDefinition (main_environment ext fname) ''<module>'' = Some (moduleDefinition ext fname)"
  by (simp add: main_environment_def Let_def importFundamentalGenerators_def emptyEnvironment_def
      addObjectDefinition_def findObjectDefinition_def moduleDefinition_def
      modulePsuedoInvocationName_def)

lemma main_environment_evaluator:
  "main_environment (ext\<lparr>ext_EvaluateGenerateAll_Recursive := E\<rparr>) fname = main_environment ext fname"
  by (simp add: main_environment_def Let_def importFundamentalGenerators_def
      moduleDefinition_def zeroContext_def)

lemma main_tokenize_evaluator:
  "main_tokenize (ext\<lparr>ext_EvaluateGenerateAll_Recursive := E\<rparr>) fname ls n toks =
   main_tokenize ext fname ls n toks"
  by (induction ls arbitrary: n toks) (auto split: prod.splits option.splits)

lemma main_write_evaluator:
  "main_write (ext\<lparr>ext_EvaluateGenerateAll_Recursive := E\<rparr>) fname out p = main_write ext fname out p"
  by (simp add: main_write_def Let_def split: sum.splits)

lemma main_generate_evaluator:
  assumes "E (main_environment ext fname) (moduleContext fname) toks 0 bodyDelimiterTemplate
             emptyGeneratorOutput =
           ext_EvaluateGenerateAll_Recursive ext (main_environment ext fname) (moduleContext fname)
             toks 0 bodyDelimiterTemplate emptyGeneratorOutput"
  shows "main_generate (ext\<lparr>ext_EvaluateGenerateAll_Recursive := E\<rparr>) fname toks p =
         main_generate ext fname toks p"
  using assms
  by (simp add: main_generate_def main_environment_evaluator main_write_evaluator
      split: prod.splits)

lemma main_evaluator_only_at_module_context:
  assumes "\<forall>toks. E (main_environment ext fname) (moduleContext fname) toks 0 bodyDelimiterTemplate
             emptyGeneratorOutput =
           ext_EvaluateGenerateAll_Recursive ext (main_environment ext fname) (moduleContext fname)
             toks 0 bodyDelimiterTemplate emptyGeneratorOutput"
  shows "main (ext\<lparr>ext_EvaluateGenerateAll_Recursive := E\<rparr>) [prog, fname] files =
         main ext [prog, fname] files"
  using assms
  by (auto simp: main_def Let_def main_tokenize_evaluator main_generate_evaluator
      split: option.splits sum.splits)


text \<open>A run of \<^verbatim>\<open>main\<close> to the end, on a file of one line.\<close>

lemma main_example_run:
  "outcome (main exampleExternals [''cakelisp'', ''test.cake''] [''test.cake'' \<mapsto> [''(a)'']])
     = Exited 0"
  by (simp add: main_def Let_def exampleExternals_def main_generate_def main_write_def
      main_sourceHeading_def PrintfBuffer_def SafeSnprinf_def snprintf_def
      sourceHeading_format_def string_or_empty_def)

lemma main_environment_definitions:
  "definitions (main_environment ext fname) = [(''<module>'', moduleDefinition ext fname)]"
  "references (main_environment ext fname) = []"
  by (simp_all add: main_environment_def Let_def importFundamentalGenerators_def emptyEnvironment_def
      addObjectDefinition_def findObjectDefinition_def moduleDefinition_def
      modulePsuedoInvocationName_def)

lemma main_after_validation:
  assumes "files fname = Some ls" and "main_tokenize ext fname ls 1 [] = Inr (toks, n)"
    and "ext_validateParentheses ext toks"
  shows "main ext [prog, fname] files =
         main_generate ext fname toks
           ([newline] @ ''Tokenization:'' @ [newline] @ ''Opened '' @ fname @ [newline] @
            ''Tokenized '' @ printf_d (n - 1) @ '' lines'' @ [newline] @ [newline] @
            ''Parsing and code generation:'' @ [newline])"
  using assms by (simp add: main_def Let_def)

lemma module_context_reference_required:
  "ObjectReference.context r = moduleContext fname \<Longrightarrow> referenceIsRequired r"
  by (simp add: referenceIsRequired_def moduleContext_def)

text \<open>
  The example: the evaluator defines \<^verbatim>\<open>helper\<close>, not required, and records a reference to it
  under the context \<^verbatim>\<open>main\<close> gave; the resolver makes \<^verbatim>\<open>helper\<close> required, and \<^verbatim>\<open>main\<close> runs
  to the end.
\<close>

lemma exampleEvaluated_value:
  "definitions exampleEvaluated =
     [(''<module>'', moduleDefinition exampleResolvingExternals ''test.cake''),
      (''helper'', exampleDefinition ''helper'' ObjectType_Function False)]"
  "references exampleEvaluated =
     [(''helper'', [exampleTopLevelReference (moduleContext ''test.cake'')
                      [symbolToken ''(helper)''] 0])]"
  by (simp_all add: exampleEvaluated_def exampleRecordingEvaluator_def main_environment_def Let_def
      importFundamentalGenerators_def emptyEnvironment_def addObjectDefinition_def
      findObjectDefinition_def moduleDefinition_def modulePsuedoInvocationName_def
      exampleDefinition_def symbolToken_def addReference_def)

lemma exampleEvaluated_resolved:
  "fst (EvaluateResolveReferences (\<lambda>d. True) exampleEvaluated)"
  "map (\<lambda>(k, d). (k, ObjectDefinition.isRequired d))
     (definitions (fst (snd (EvaluateResolveReferences (\<lambda>d. True) exampleEvaluated)))) =
     [(''<module>'', True), (''helper'', True)]"
  "references (fst (snd (EvaluateResolveReferences (\<lambda>d. True) exampleEvaluated))) = []"
  by (simp_all add: EvaluateResolveReferences_def resolveLoop.simps resolveRound_def
      resolveReferencesTo_def missingSymbols_def inheritRequired_def exampleTopLevelReference_def
      requireOutgoingReferences_def referenceIsRequired_def isCompileTime_def moduleContext_def
      exampleEvaluated_value findObjectDefinition_def Let_def moduleDefinition_def
      exampleDefinition_def)

lemma main_resolving_run:
  "outcome (main exampleResolvingExternals [''cakelisp'', ''test.cake'']
              [''test.cake'' \<mapsto> [''(helper)'']]) = Exited 0"
proof -
  obtain ok resolved errors where
    r: "EvaluateResolveReferences (\<lambda>d. True) exampleEvaluated = (ok, resolved, errors)"
    by (cases "EvaluateResolveReferences (\<lambda>d. True) exampleEvaluated")
  have ok: ok using exampleEvaluated_resolved(1) by (simp add: r)
  have e: "exampleRecordingEvaluator (main_environment exampleResolvingExternals ''test.cake'')
             (moduleContext ''test.cake'') [symbolToken ''(helper)''] 0 bodyDelimiterTemplate
             emptyGeneratorOutput
           = (0, exampleEvaluated, emptyGeneratorOutput)"
    by (simp add: exampleEvaluated_def exampleRecordingEvaluator_def)
  have x: "ext_EvaluateGenerateAll_Recursive exampleResolvingExternals = exampleRecordingEvaluator"
    "ext_EvaluateResolveReferences exampleResolvingExternals exampleEvaluated emptyGeneratorOutput
       = (ok, resolved, emptyGeneratorOutput)"
    "ext_validateParentheses exampleResolvingExternals [symbolToken ''(helper)'']"
    "ext_tokenizeLine exampleResolvingExternals ''(helper)'' ''test.cake'' 1 []
       = (None, [symbolToken ''(helper)''])"
    "ext_generatedSourceHeading exampleResolvingExternals = None"
    by (simp_all add: exampleResolvingExternals_def exampleExternals_def r)
  have w: "ext_writeGeneratorOutput exampleResolvingExternals out settings" for out settings
    by (simp add: exampleResolvingExternals_def exampleExternals_def)
  show ?thesis
    by (simp add: main_def Let_def main_generate_def main_write_def x e ok w
        main_sourceHeading_def PrintfBuffer_def SafeSnprinf_def snprintf_def
        sourceHeading_format_def string_or_empty_def)
qed

text \<open>
  Claim C9. Before \<^verbatim>\<open>main\<close> evaluates any token of the user, the environment holds one
  definition, under the name \<^verbatim>\<open><module>\<close>, whose isRequired is true and whose output is
  allocated, and no reference; the context \<^verbatim>\<open>main\<close> evaluates under has scope Module,
  isRequired true and \<^verbatim>\<open><module>\<close> (the name token of that definition) as definitionName.
  For a file that can be opened, tokenizes and passes the parenthesis check, the run of
  \<^verbatim>\<open>main\<close> is that of one call of the evaluator with this environment, this context, the
  tokens of the file and start index 0, followed, when the evaluator reports no error, by
  the resolver on the environment the evaluator returned and then by the writer. When that
  call of the evaluator returns without error an environment in which a defined name has a
  reference recorded under the context \<^verbatim>\<open>main\<close> gave, and the resolver \<^verbatim>\<open>main\<close> calls does on
  this environment what the resolver of the specification does, the definition is
  required in the environment that this call of the resolver returns. \<^verbatim>\<open>main\<close> reaches the
  evaluator with no other arguments: an evaluator that agrees with the given one on these
  gives the same run of \<^verbatim>\<open>main\<close>, whatever it does elsewhere.
\<close>

theorem main_registers_module_definition:
  "definitions (main_environment ext fname) = [(''<module>'', moduleDefinition ext fname)]
   \<and> references (main_environment ext fname) = []
   \<and> findObjectDefinition (main_environment ext fname) ''<module>'' = Some (moduleDefinition ext fname)
   \<and> contents (name (moduleDefinition ext fname)) = ''<module>''
   \<and> ObjectDefinition.isRequired (moduleDefinition ext fname)
   \<and> output (moduleDefinition ext fname) = Some emptyGeneratorOutput
   \<and> scope (moduleContext fname) = EvaluatorScope_Module
   \<and> EvaluatorContext.isRequired (moduleContext fname)
   \<and> definitionName (moduleContext fname) = Some (name (moduleDefinition ext fname))
   \<and> (let progress = [newline] @ ''Tokenization:'' @ [newline] @ ''Opened '' @ fname @ [newline] @
                       ''Tokenized '' @ printf_d (n - 1) @ '' lines'' @ [newline] @ [newline] @
                       ''Parsing and code generation:'' @ [newline]
       in (files fname = Some ls \<and> main_tokenize ext fname ls 1 [] = Inr (toks, n)
             \<and> ext_validateParentheses ext toks \<longrightarrow>
           main ext [prog, fname] files =
             (case ext_EvaluateGenerateAll_Recursive ext (main_environment ext fname)
                     (moduleContext fname) toks 0 bodyDelimiterTemplate emptyGeneratorOutput of
                (numErrors, environment, genOutput) \<Rightarrow>
                  if numErrors \<noteq> 0 then \<lparr>outcome = Exited 1, printed = progress\<rparr>
                  else (case ext_EvaluateResolveReferences ext environment genOutput of
                          (ok, environment', genOutput') \<Rightarrow>
                            if \<not> ok then \<lparr>outcome = Exited 1, printed = progress\<rparr>
                            else main_write ext fname genOutput' progress)))
        \<and> (files fname = Some ls \<and> main_tokenize ext fname ls 1 [] = Inr (toks, n)
             \<and> ext_validateParentheses ext toks
             \<and> ext_EvaluateGenerateAll_Recursive ext (main_environment ext fname)
                  (moduleContext fname) toks 0 bodyDelimiterTemplate emptyGeneratorOutput
                = (0, evaluated, genOutput)
             \<and> ext_EvaluateResolveReferences ext evaluated genOutput =
                  (case EvaluateResolveReferences build evaluated of
                     (ok, resolved, errors) \<Rightarrow> (ok, resolved, genOutput))
             \<and> map_of (references evaluated) nm = Some rs
             \<and> r \<in> set rs \<and> ObjectReference.context r = moduleContext fname
             \<and> isDefined evaluated nm \<longrightarrow>
           main ext [prog, fname] files =
             (case ext_EvaluateResolveReferences ext evaluated genOutput of
                (ok, resolved, genOutput') \<Rightarrow>
                  if \<not> ok then \<lparr>outcome = Exited 1, printed = progress\<rparr>
                  else main_write ext fname genOutput' progress)
           \<and> isRequiredIn (fst (snd (ext_EvaluateResolveReferences ext evaluated genOutput))) nm))
   \<and> ((\<forall>toks. E (main_environment ext fname) (moduleContext fname) toks 0
                 bodyDelimiterTemplate emptyGeneratorOutput =
               ext_EvaluateGenerateAll_Recursive ext (main_environment ext fname)
                 (moduleContext fname) toks 0 bodyDelimiterTemplate emptyGeneratorOutput) \<longrightarrow>
        main (ext\<lparr>ext_EvaluateGenerateAll_Recursive := E\<rparr>) [prog, fname] files =
        main ext [prog, fname] files)"
proof -
  let ?p = "[newline] @ ''Tokenization:'' @ [newline] @ ''Opened '' @ fname @ [newline] @
            ''Tokenized '' @ printf_d (n - 1) @ '' lines'' @ [newline] @ [newline] @
            ''Parsing and code generation:'' @ [newline]"
  have 0: "definitions (main_environment ext fname) = [(''<module>'', moduleDefinition ext fname)]"
    "references (main_environment ext fname) = []"
    by (rule main_environment_definitions)+
  have 1: "findObjectDefinition (main_environment ext fname) ''<module>''
           = Some (moduleDefinition ext fname)"
    by (rule main_environment_module)
  have 2: "contents (name (moduleDefinition ext fname)) = ''<module>''"
    "ObjectDefinition.isRequired (moduleDefinition ext fname)"
    "output (moduleDefinition ext fname) = Some emptyGeneratorOutput"
    by (simp_all add: moduleDefinition_def modulePsuedoInvocationName_def)
  have 3: "scope (moduleContext fname) = EvaluatorScope_Module"
    "EvaluatorContext.isRequired (moduleContext fname)"
    "definitionName (moduleContext fname) = Some (name (moduleDefinition ext fname))"
    by (simp_all add: moduleContext_def moduleDefinition_def)
  have 4: "main ext [prog, fname] files =
             (case ext_EvaluateGenerateAll_Recursive ext (main_environment ext fname)
                     (moduleContext fname) toks 0 bodyDelimiterTemplate emptyGeneratorOutput of
                (numErrors, environment, genOutput) \<Rightarrow>
                  if numErrors \<noteq> 0 then \<lparr>outcome = Exited 1, printed = ?p\<rparr>
                  else (case ext_EvaluateResolveReferences ext environment genOutput of
                          (ok, environment', genOutput') \<Rightarrow>
                            if \<not> ok then \<lparr>outcome = Exited 1, printed = ?p\<rparr>
                            else main_write ext fname genOutput' ?p))"
    if "files fname = Some ls" "main_tokenize ext fname ls 1 [] = Inr (toks, n)"
      "ext_validateParentheses ext toks"
    using that main_after_validation
            [where files = files and fname = fname and ls = ls and ext = ext and toks = toks
               and n = n and prog = prog]
    by (simp only: main_generate_def)
  have 5: "main ext [prog, fname] files =
             (case ext_EvaluateResolveReferences ext evaluated genOutput of
                (ok, resolved, genOutput') \<Rightarrow>
                  if \<not> ok then \<lparr>outcome = Exited 1, printed = ?p\<rparr>
                  else main_write ext fname genOutput' ?p)"
    if "files fname = Some ls" "main_tokenize ext fname ls 1 [] = Inr (toks, n)"
      "ext_validateParentheses ext toks"
      "ext_EvaluateGenerateAll_Recursive ext (main_environment ext fname)
         (moduleContext fname) toks 0 bodyDelimiterTemplate emptyGeneratorOutput
       = (0, evaluated, genOutput)"
    using 4 [OF that(1-3)] that(4) by simp
  have 6: "isRequiredIn (fst (snd (ext_EvaluateResolveReferences ext evaluated genOutput))) nm"
    if e: "ext_EvaluateResolveReferences ext evaluated genOutput =
             (case EvaluateResolveReferences build evaluated of
                (ok, resolved, errors) \<Rightarrow> (ok, resolved, genOutput))"
      and m: "map_of (references evaluated) nm = Some rs"
      and r: "r \<in> set rs" "ObjectReference.context r = moduleContext fname"
      and d: "isDefined evaluated nm"
  proof -
    have q: "list_ex referenceIsRequired rs"
      using r module_context_reference_required [of r fname] by (auto simp: list_ex_iff)
    have "isRequiredIn (fst (snd (EvaluateResolveReferences build evaluated))) nm"
      by (rule EvaluateResolveReferences_marks [OF m q d])
    then show ?thesis by (auto simp: e split: prod.splits)
  qed
  have 7: "main (ext\<lparr>ext_EvaluateGenerateAll_Recursive := E\<rparr>) [prog, fname] files =
           main ext [prog, fname] files"
    if "\<forall>toks. E (main_environment ext fname) (moduleContext fname) toks 0
                 bodyDelimiterTemplate emptyGeneratorOutput =
               ext_EvaluateGenerateAll_Recursive ext (main_environment ext fname)
                 (moduleContext fname) toks 0 bodyDelimiterTemplate emptyGeneratorOutput"
    using that by (rule main_evaluator_only_at_module_context)
  show ?thesis
    unfolding Let_def
    using 0 1 2 3 4 5 6 7 by blast
qed

theorem main_registers_module_definition_witness:
  "findObjectDefinition (main_environment exampleResolvingExternals ''test.cake'') ''<module>''
     = Some (moduleDefinition exampleResolvingExternals ''test.cake'')
   \<and> ext_EvaluateGenerateAll_Recursive exampleResolvingExternals
         (main_environment exampleResolvingExternals ''test.cake'') (moduleContext ''test.cake'')
         [symbolToken ''(helper)''] 0 bodyDelimiterTemplate emptyGeneratorOutput
       = (0, exampleEvaluated, emptyGeneratorOutput)
   \<and> references exampleEvaluated =
       [(''helper'', [exampleTopLevelReference (moduleContext ''test.cake'')
                        [symbolToken ''(helper)''] 0])]
   \<and> \<not> isRequiredIn exampleEvaluated ''helper''
   \<and> isRequiredIn
        (fst (snd (ext_EvaluateResolveReferences exampleResolvingExternals exampleEvaluated
                     emptyGeneratorOutput))) ''helper''
   \<and> main exampleResolvingExternals [''cakelisp'', ''test.cake''] [''test.cake'' \<mapsto> [''(helper)'']]
       = (case ext_EvaluateResolveReferences exampleResolvingExternals exampleEvaluated
                 emptyGeneratorOutput of
            (ok, resolved, genOutput') \<Rightarrow>
              if \<not> ok
              then \<lparr>outcome = Exited 1,
                    printed = [newline] @ ''Tokenization:'' @ [newline] @ ''Opened test.cake'' @
                      [newline] @ ''Tokenized 1 lines'' @ [newline] @ [newline] @
                      ''Parsing and code generation:'' @ [newline]\<rparr>
              else main_write exampleResolvingExternals ''test.cake'' genOutput'
                     ([newline] @ ''Tokenization:'' @ [newline] @ ''Opened test.cake'' @
                      [newline] @ ''Tokenized 1 lines'' @ [newline] @ [newline] @
                      ''Parsing and code generation:'' @ [newline]))
   \<and> main (exampleResolvingExternals\<lparr>ext_EvaluateGenerateAll_Recursive := exampleOtherEvaluator\<rparr>)
        [''cakelisp'', ''test.cake''] [''test.cake'' \<mapsto> [''(helper)'']]
      = main exampleResolvingExternals [''cakelisp'', ''test.cake'']
          [''test.cake'' \<mapsto> [''(helper)'']]"
proof -
  let ?ext = exampleResolvingExternals
  let ?r = "exampleTopLevelReference (moduleContext ''test.cake'') [symbolToken ''(helper)''] 0"
  have f: "[''test.cake'' \<mapsto> [''(helper)'']] ''test.cake'' = Some [''(helper)'']"
    by simp
  have t: "main_tokenize ?ext ''test.cake'' [''(helper)''] 1 [] = Inr ([symbolToken ''(helper)''], 2)"
    by (simp add: exampleResolvingExternals_def exampleExternals_def)
  have v: "ext_validateParentheses ?ext [symbolToken ''(helper)'']"
    by (simp add: exampleResolvingExternals_def exampleExternals_def)
  have e: "ext_EvaluateGenerateAll_Recursive ?ext (main_environment ?ext ''test.cake'')
             (moduleContext ''test.cake'') [symbolToken ''(helper)''] 0 bodyDelimiterTemplate
             emptyGeneratorOutput
           = (0, exampleEvaluated, emptyGeneratorOutput)"
    by (simp add: exampleEvaluated_def exampleRecordingEvaluator_def exampleResolvingExternals_def)
  have s: "ext_EvaluateResolveReferences ?ext exampleEvaluated emptyGeneratorOutput =
             (case EvaluateResolveReferences (\<lambda>d. True) exampleEvaluated of
                (ok, resolved, errors) \<Rightarrow> (ok, resolved, emptyGeneratorOutput))"
    by (simp add: exampleResolvingExternals_def)
  have m: "map_of (references exampleEvaluated) ''helper'' = Some [?r]"
    by (simp add: exampleEvaluated_value)
  have r: "?r \<in> set [?r]" "ObjectReference.context ?r = moduleContext ''test.cake''"
    by (simp_all add: exampleTopLevelReference_def)
  have d: "isDefined exampleEvaluated ''helper''"
    by (simp add: isDefined_def findObjectDefinition_def exampleEvaluated_value)
  have n: "\<not> isRequiredIn exampleEvaluated ''helper''"
    by (simp add: isRequiredIn_def findObjectDefinition_def exampleEvaluated_value
        exampleDefinition_def)
  have o: "\<forall>toks. exampleOtherEvaluator (main_environment ?ext ''test.cake'')
                 (moduleContext ''test.cake'') toks 0 bodyDelimiterTemplate emptyGeneratorOutput =
               ext_EvaluateGenerateAll_Recursive ?ext (main_environment ?ext ''test.cake'')
                 (moduleContext ''test.cake'') toks 0 bodyDelimiterTemplate emptyGeneratorOutput"
    by (simp add: exampleOtherEvaluator_def exampleResolvingExternals_def)
  let ?p = "[newline] @ ''Tokenization:'' @ [newline] @ ''Opened '' @ ''test.cake'' @ [newline] @
            ''Tokenized '' @ printf_d (2 - 1) @ '' lines'' @ [newline] @ [newline] @
            ''Parsing and code generation:'' @ [newline]"
  have p: "?p = [newline] @ ''Tokenization:'' @ [newline] @ ''Opened test.cake'' @
                [newline] @ ''Tokenized 1 lines'' @ [newline] @ [newline] @
                ''Parsing and code generation:'' @ [newline]"
    by (simp add: printf_d_def dec_digits.simps digit_char_values)
  note T = main_registers_module_definition
         [where ext = ?ext and fname = "''test.cake''" and prog = "''cakelisp''"
            and files = "[''test.cake'' \<mapsto> [''(helper)'']]" and ls = "[''(helper)'']"
            and toks = "[symbolToken ''(helper)'']" and n = 2
            and evaluated = exampleEvaluated and genOutput = emptyGeneratorOutput
            and build = "\<lambda>d. True" and nm = "''helper''" and rs = "[?r]" and r = ?r
            and E = exampleOtherEvaluator, unfolded Let_def]
  from T have 1: "findObjectDefinition (main_environment ?ext ''test.cake'') ''<module>''
          = Some (moduleDefinition ?ext ''test.cake'')"
    by blast
  from T f t v e s m r d
  have 2: "main ?ext [''cakelisp'', ''test.cake''] [''test.cake'' \<mapsto> [''(helper)'']]
           = (case ext_EvaluateResolveReferences ?ext exampleEvaluated emptyGeneratorOutput of
            (ok, resolved, genOutput') \<Rightarrow>
              if \<not> ok then \<lparr>outcome = Exited 1, printed = ?p\<rparr>
              else main_write ?ext ''test.cake'' genOutput' ?p)
        \<and> isRequiredIn
            (fst (snd (ext_EvaluateResolveReferences ?ext exampleEvaluated emptyGeneratorOutput)))
            ''helper''"
    by blast
  from T o
  have 3: "main (?ext\<lparr>ext_EvaluateGenerateAll_Recursive := exampleOtherEvaluator\<rparr>)
            [''cakelisp'', ''test.cake''] [''test.cake'' \<mapsto> [''(helper)'']]
          = main ?ext [''cakelisp'', ''test.cake''] [''test.cake'' \<mapsto> [''(helper)'']]"
    by blast
  have 4: "references exampleEvaluated = [(''helper'', [?r])]"
    by (simp add: exampleEvaluated_value)
  from 2 have 5: "main ?ext [''cakelisp'', ''test.cake''] [''test.cake'' \<mapsto> [''(helper)'']]
           = (case ext_EvaluateResolveReferences ?ext exampleEvaluated emptyGeneratorOutput of
            (ok, resolved, genOutput') \<Rightarrow>
              if \<not> ok
              then \<lparr>outcome = Exited 1,
                    printed = [newline] @ ''Tokenization:'' @ [newline] @ ''Opened test.cake'' @
                      [newline] @ ''Tokenized 1 lines'' @ [newline] @ [newline] @
                      ''Parsing and code generation:'' @ [newline]\<rparr>
              else main_write ?ext ''test.cake'' genOutput'
                     ([newline] @ ''Tokenization:'' @ [newline] @ ''Opened test.cake'' @
                      [newline] @ ''Tokenized 1 lines'' @ [newline] @ [newline] @
                      ''Parsing and code generation:'' @ [newline]))"
    by (simp only: p)
  from 1 e 4 n 2 5 3 show ?thesis by blast
qed


section \<open>Properties of the hot-reloading hook\<close>

text \<open>
  On a program with one variable and two functions, in an environment where the hook has
  not run, the hook returns true, sets \<^verbatim>\<open>was-code-modified\<close> and \<^verbatim>\<open>modified-vars\<close>, and leaves six
  new token vectors in the environment.
\<close>

lemma make_code_hot_reloadable_first_run:
  "(case make_code_hot_reloadable exampleMachinery exampleProgram False of
      (r, e, w) \<Rightarrow>
        r = HookReturned True \<and> w \<and> length (comptimeTokens e) = 6
        \<and> compileTimeVariables e ''modified-vars'' = Some (CompileTimeBool True))"
  by code_simp

text \<open>
  Claim C7. When the compile-time variable \<^verbatim>\<open>modified-vars\<close> of the environment is already
  true, the hook returns true, and it leaves the environment and \<^verbatim>\<open>was-code-modified\<close> as
  they were. This holds whatever the functions it would call do (the machinery is any
  record of parameters), so no definition is rewritten: the flag is the hook's own.
\<close>

theorem make_code_hot_reloadable_once:
  assumes "compileTimeVariables environment ''modified-vars'' = Some (CompileTimeBool True)"
  shows "make_code_hot_reloadable m environment wcm = (HookReturned True, environment, wcm)"
  using assms by (simp add: make_code_hot_reloadable_def get_or_create_comptime_var_def)

theorem make_code_hot_reloadable_once_witness:
  "make_code_hot_reloadable exampleMachinery exampleModified False
     = (HookReturned True, exampleModified, False)"
proof -
  have "compileTimeVariables exampleModified ''modified-vars'' = Some (CompileTimeBool True)"
    by (simp add: exampleModified_def)
  from make_code_hot_reloadable_once [OF this] show ?thesis .
qed

end
